theory Spec2Isabelle
  imports Complex_Main
begin

section \<open>Values of the request payload\<close>

text \<open>
  A JavaScript number is an IEEE double: not-a-number, an infinity, or a finite value,
  which is a rational. \<open>Number.isInteger\<close> holds of the finite values without a
  fractional part.
\<close>

datatype jsnum = NaN | PosInf | NegInf | Fin rat

fun Number_isInteger :: "jsnum \<Rightarrow> bool" where
  "Number_isInteger (Fin q) = (of_int \<lfloor>q\<rfloor> = q)"
| "Number_isInteger _ = False"

text \<open>
  The untyped parameter container \<open>jsonRpcParams\<close>: a parsed JSON value, or
  \<open>undefined\<close>. An object is the list of its own properties; \<open>map_of\<close> reads
  a property.
\<close>

datatype jsval =
    JUndefined
  | JNull
  | JBool bool
  | JNum jsnum
  | JStr string
  | JArr "jsval list"
  | JObj "(string \<times> jsval) list"

type_synonym bytes = string

text \<open>
  What the handlers take from outside \<open>api.ts\<close>: the digest computed by
  \<open>genHashFromFile\<close> (module \<open>util\<close>), the constant \<open>APP_VERSION\<close>, and
  the behaviour of the JavaScript runtime and of the database driver on values: the
  numeric coercion \<open>Number(v)\<close> of an array, of an object and of a string other
  than a short string of decimal digits, \<open>JSON.stringify\<close>,
  \<open>JSON.parse\<close> (\<open>None\<close> when it throws), the value a column of INTEGER affinity
  holds after a JavaScript value was bound to it (\<open>None\<close> when the driver rejects the
  value), and \<open>process.uptime()\<close>.
\<close>

record env =
  hashBytes :: "bytes \<Rightarrow> string"
  APP_VERSION :: string
  uptime :: int
  coerceNumber :: "jsval \<Rightarrow> jsnum"
  jsonStringify :: "jsval \<Rightarrow> string"
  jsonParse :: "string \<Rightarrow> jsval option"
  bindInteger :: "jsval \<Rightarrow> jsval option"

section \<open>Failures\<close>

text \<open>
  Each failure of module \<open>errors\<close> carries the parameters of the request. The last
  five are raised by the platform: a file that is not there, a violated UNIQUE
  constraint, a value the database driver cannot bind, \<open>JSON.parse\<close> on text that
  is not JSON, and a method name the JSON-RPC server does not know.
\<close>

datatype error =
    CannotChangeAck jsval
  | CannotChangeUploadedFile jsval
  | InvalidAck jsval
  | InvalidAttachmentID jsval
  | InvalidRecipientID jsval
  | InvalidTxid jsval
  | InvalidVout jsval
  | MissingAck jsval
  | MissingAttachmentID jsval
  | MissingFile jsval
  | MissingRecipientID jsval
  | MissingTxid jsval
  | NotFoundConsignment jsval
  | NotFoundMedia jsval
  | ENOENT string
  | SqliteError
  | TypeError
  | SyntaxError
  | MethodNotFound string

section \<open>Parameter validation\<close>

definition isBoolean :: "jsval \<Rightarrow> bool" where
  "isBoolean data = (case data of JBool _ \<Rightarrow> True | _ \<Rightarrow> False)"

definition isDictionary :: "jsval \<Rightarrow> bool" where
  "isDictionary data = (case data of JObj _ \<Rightarrow> True | _ \<Rightarrow> False)"

definition isString :: "jsval \<Rightarrow> bool" where
  "isString data = (case data of JStr _ \<Rightarrow> True | _ \<Rightarrow> False)"

text \<open>
  \<open>Number(data)\<close>: the primitives convert as the language defines. A string of
  one to fifteen decimal digits converts to the integer it writes, which is below
  \<open>2\<^sup>5\<^sup>3\<close> and so is a double exactly; every other string is left to the
  platform.
\<close>

definition isDigit :: "char \<Rightarrow> bool" where
  "isDigit c = (48 \<le> (of_char c :: nat) \<and> (of_char c :: nat) \<le> 57)"

definition decimalDigits :: "string \<Rightarrow> bool" where
  "decimalDigits s = (s \<noteq> [] \<and> length s \<le> 15 \<and> list_all isDigit s)"

definition decimalValue :: "string \<Rightarrow> nat" where
  "decimalValue s = foldl (\<lambda>n c. 10 * n + (of_char c - 48)) 0 s"

definition toNumber :: "env \<Rightarrow> jsval \<Rightarrow> jsnum" where
  "toNumber e data =
     (case data of
        JUndefined \<Rightarrow> NaN
      | JNull \<Rightarrow> Fin 0
      | JBool b \<Rightarrow> Fin (if b then 1 else 0)
      | JNum n \<Rightarrow> n
      | JStr s \<Rightarrow>
          (if decimalDigits s then Fin (of_nat (decimalValue s)) else coerceNumber e data)
      | _ \<Rightarrow> coerceNumber e data)"

definition isNumber :: "env \<Rightarrow> jsval \<Rightarrow> bool" where
  "isNumber e data = (Number_isInteger (toNumber e data) \<and> data \<noteq> JNull)"

text \<open>\<open>!v\<close> is true of the falsy values.\<close>

definition truthy :: "jsval \<Rightarrow> bool" where
  "truthy v =
     (case v of
        JUndefined \<Rightarrow> False
      | JNull \<Rightarrow> False
      | JBool b \<Rightarrow> b
      | JNum n \<Rightarrow> n \<noteq> NaN \<and> n \<noteq> Fin 0
      | JStr s \<Rightarrow> s \<noteq> []
      | _ \<Rightarrow> True)"

text \<open>\<open>key in params\<close> and \<open>params[key]\<close>, for a container that is a dictionary.\<close>

definition property :: "jsval \<Rightarrow> string \<Rightarrow> jsval option" where
  "property params key = (case params of JObj kvs \<Rightarrow> map_of kvs key | _ \<Rightarrow> None)"

definition getAckParam :: "jsval \<Rightarrow> error + bool" where
  "getAckParam jsonRpcParams =
     (if \<not> isDictionary jsonRpcParams then Inl (MissingAck jsonRpcParams)
      else case property jsonRpcParams ''ack'' of
        None \<Rightarrow> Inl (MissingAck jsonRpcParams)
      | Some ack \<Rightarrow>
          (if \<not> isBoolean ack then Inl (InvalidAck jsonRpcParams)
           else case ack of
             JBool b \<Rightarrow> Inr b
           | _ \<Rightarrow> Inl (InvalidAck jsonRpcParams)))"

definition getAttachmentIDParam :: "jsval \<Rightarrow> error + string" where
  "getAttachmentIDParam jsonRpcParams =
     (if \<not> isDictionary jsonRpcParams then Inl (MissingAttachmentID jsonRpcParams)
      else case property jsonRpcParams ''attachment_id'' of
        None \<Rightarrow> Inl (MissingAttachmentID jsonRpcParams)
      | Some attachmentID \<Rightarrow>
          (if \<not> truthy attachmentID \<or> \<not> isString attachmentID
           then Inl (InvalidAttachmentID jsonRpcParams)
           else case attachmentID of
             JStr s \<Rightarrow> Inr s
           | _ \<Rightarrow> Inl (InvalidAttachmentID jsonRpcParams)))"

definition getRecipientIDParam :: "jsval \<Rightarrow> error + string" where
  "getRecipientIDParam jsonRpcParams =
     (if \<not> isDictionary jsonRpcParams then Inl (MissingRecipientID jsonRpcParams)
      else case property jsonRpcParams ''recipient_id'' of
        None \<Rightarrow> Inl (MissingRecipientID jsonRpcParams)
      | Some recipientID \<Rightarrow>
          (if \<not> truthy recipientID \<or> \<not> isString recipientID
           then Inl (InvalidRecipientID jsonRpcParams)
           else case recipientID of
             JStr s \<Rightarrow> Inr s
           | _ \<Rightarrow> Inl (InvalidRecipientID jsonRpcParams)))"

text \<open>\<open>getSenderAmountParam\<close> has no failure: its result is the blob or \<open>undefined\<close>.\<close>

definition getSenderAmountParam :: "jsval \<Rightarrow> jsval option" where
  "getSenderAmountParam jsonRpcParams =
     (if isDictionary jsonRpcParams then
        (case property jsonRpcParams ''sender_amount'' of
           Some amount \<Rightarrow> (if isDictionary amount then Some amount else None)
         | None \<Rightarrow> None)
      else None)"

definition getTxidParam :: "jsval \<Rightarrow> error + string" where
  "getTxidParam jsonRpcParams =
     (if \<not> isDictionary jsonRpcParams then Inl (MissingTxid jsonRpcParams)
      else case property jsonRpcParams ''txid'' of
        None \<Rightarrow> Inl (MissingTxid jsonRpcParams)
      | Some txid \<Rightarrow>
          (if \<not> truthy txid \<or> \<not> isString txid
           then Inl (InvalidTxid jsonRpcParams)
           else case txid of
             JStr s \<Rightarrow> Inr s
           | _ \<Rightarrow> Inl (InvalidTxid jsonRpcParams)))"

text \<open>The value of \<open>vout\<close> is returned as it came: the cast changes nothing at run time.\<close>

definition getVoutParam :: "env \<Rightarrow> jsval \<Rightarrow> error + jsval option" where
  "getVoutParam e jsonRpcParams =
     (if isDictionary jsonRpcParams then
        (case property jsonRpcParams ''vout'' of
           Some vout \<Rightarrow>
             (if \<not> isNumber e vout then Inl (InvalidVout jsonRpcParams)
              else Inr (Some vout))
         | None \<Rightarrow> Inr None)
      else Inr None)"

section \<open>Persistent state\<close>

text \<open>
  A row of table \<open>consignments\<close> as the driver returns it (\<open>ConsignmentDB\<close>)
  and as \<open>getConsignment\<close> returns it (\<open>Consignment\<close>), and a row of table
  \<open>media\<close>. A nullable column is an option, but for \<open>vout\<close>, whose value
  is the JavaScript value the driver reads back (\<open>JNull\<close> for NULL).
\<close>

record ConsignmentDB =
  db_recipient_id :: string
  db_filename :: string
  db_txid :: string
  db_vout :: jsval
  db_ack :: "int option"
  db_sender_amount :: "string option"

record Consignment =
  recipientID :: string
  filename :: string
  txid :: string
  vout :: "jsval option"
  ack :: "bool option"
  sender_amount :: "string option"

record Media =
  attachment_id :: string
  media_filename :: string

text \<open>
  The two tables, rows in the order of their insertion, and the three directories under
  the data root, each a map from a file's name to its bytes.
\<close>

record state =
  consignments :: "ConsignmentDB list"
  media :: "Media list"
  tempDir :: "string \<rightharpoonup> bytes"
  consignmentDir :: "string \<rightharpoonup> bytes"
  mediaDir :: "string \<rightharpoonup> bytes"

definition getConsignment :: "state \<Rightarrow> string \<Rightarrow> Consignment option" where
  "getConsignment st rid =
     (case find (\<lambda>r. db_recipient_id r = rid) (consignments st) of
        Some result \<Rightarrow>
          Some \<lparr> recipientID = db_recipient_id result,
                 filename = db_filename result,
                 txid = db_txid result,
                 vout = (if db_vout result = JNull \<or> db_vout result = JUndefined then None
                         else Some (db_vout result)),
                 ack = (case db_ack result of Some n \<Rightarrow> Some (n \<noteq> 0) | None \<Rightarrow> None),
                 sender_amount = db_sender_amount result \<rparr>
      | None \<Rightarrow> None)"

definition getConsignmentOrFail :: "state \<Rightarrow> jsval \<Rightarrow> error + Consignment" where
  "getConsignmentOrFail st jsonRpcParams =
     (case getRecipientIDParam jsonRpcParams of
        Inl err \<Rightarrow> Inl err
      | Inr rid \<Rightarrow>
          (case getConsignment st rid of
             None \<Rightarrow> Inl (NotFoundConsignment jsonRpcParams)
           | Some consignment \<Rightarrow> Inr consignment))"

definition getMedia :: "state \<Rightarrow> string \<Rightarrow> Media option" where
  "getMedia st aid = find (\<lambda>r. attachment_id r = aid) (media st)"

text \<open>
  The two INSERT statements and the UPDATE. Both tables declare their key UNIQUE, so an
  INSERT of a key that has a row fails. An \<open>undefined\<close> argument is bound as NULL.
\<close>

definition insertConsignment ::
  "env \<Rightarrow> state \<Rightarrow> string \<Rightarrow> string \<Rightarrow> string \<Rightarrow> jsval option \<Rightarrow> int option \<Rightarrow>
   string option \<Rightarrow> error + state" where
  "insertConsignment e st rid fname tx vo ak amount =
     (case (case vo of None \<Rightarrow> Some JNull | Some v \<Rightarrow> bindInteger e v) of
        None \<Rightarrow> Inl TypeError
      | Some stored \<Rightarrow>
          (if rid \<in> set (map db_recipient_id (consignments st)) then Inl SqliteError
           else Inr (st\<lparr>consignments := consignments st @
                  [\<lparr> db_recipient_id = rid, db_filename = fname, db_txid = tx,
                     db_vout = stored, db_ack = ak, db_sender_amount = amount \<rparr>]\<rparr>)))"

definition insertMedia :: "state \<Rightarrow> string \<Rightarrow> string \<Rightarrow> error + state" where
  "insertMedia st aid fname =
     (if aid \<in> set (map attachment_id (media st)) then Inl SqliteError
      else Inr (st\<lparr>media := media st @ [\<lparr> attachment_id = aid, media_filename = fname \<rparr>]\<rparr>))"

definition updateAck :: "state \<Rightarrow> int \<Rightarrow> string \<Rightarrow> state" where
  "updateAck st a rid =
     st\<lparr>consignments :=
          map (\<lambda>r. if db_recipient_id r = rid then r\<lparr>db_ack := Some a\<rparr> else r)
            (consignments st)\<rparr>"

text \<open>
  The file system calls, on a file of the staging directory: \<open>genHashFromFile\<close>
  digests its bytes, \<open>fs.existsSync\<close>, \<open>fs.unlinkSync\<close>, and
  \<open>fs.renameSync\<close> into a permanent directory, which replaces a file of the same
  name. All but \<open>existsSync\<close> fail on a file that is not there.
\<close>

definition genHashFromFile :: "env \<Rightarrow> state \<Rightarrow> string \<Rightarrow> error + string" where
  "genHashFromFile e st name =
     (case tempDir st name of
        None \<Rightarrow> Inl (ENOENT name)
      | Some content \<Rightarrow> Inr (hashBytes e content))"

definition existsSync :: "state \<Rightarrow> string \<Rightarrow> bool" where
  "existsSync st name = (tempDir st name \<noteq> None)"

definition unlinkSync :: "state \<Rightarrow> string \<Rightarrow> error + state" where
  "unlinkSync st name =
     (case tempDir st name of
        None \<Rightarrow> Inl (ENOENT name)
      | Some _ \<Rightarrow> Inr (st\<lparr>tempDir := (tempDir st)(name := None)\<rparr>))"

definition renameToConsignmentDir :: "state \<Rightarrow> string \<Rightarrow> string \<Rightarrow> error + state" where
  "renameToConsignmentDir st name new =
     (case tempDir st name of
        None \<Rightarrow> Inl (ENOENT name)
      | Some content \<Rightarrow>
          Inr (st\<lparr>tempDir := (tempDir st)(name := None),
                  consignmentDir := (consignmentDir st)(new \<mapsto> content)\<rparr>))"

definition renameToMediaDir :: "state \<Rightarrow> string \<Rightarrow> string \<Rightarrow> error + state" where
  "renameToMediaDir st name new =
     (case tempDir st name of
        None \<Rightarrow> Inl (ENOENT name)
      | Some content \<Rightarrow>
          Inr (st\<lparr>tempDir := (tempDir st)(name := None),
                  mediaDir := (mediaDir st)(new \<mapsto> content)\<rparr>))"

section \<open>Base64\<close>

text \<open>
  \<open>Buffer.toString("base64")\<close>: the standard alphabet, three bytes to four
  characters, padded with \<open>=\<close>. \<open>fromBase64\<close> is the decoder a client
  applies to the result.
\<close>

definition base64Alphabet :: string where
  "base64Alphabet = ''ABCDEFGHIJKLMNOPQRSTUVWXYZabcdefghijklmnopqrstuvwxyz0123456789+/''"

definition sextet :: "nat \<Rightarrow> char" where
  "sextet n = base64Alphabet ! (n mod 64)"

fun toBase64 :: "bytes \<Rightarrow> string" where
  "toBase64 [] = []"
| "toBase64 [a] =
     (let x = of_char a :: nat in
      [sextet (x div 4), sextet (x mod 4 * 16), CHR ''='', CHR ''=''])"
| "toBase64 [a, b] =
     (let x = of_char a :: nat; y = of_char b :: nat in
      [sextet (x div 4), sextet (x mod 4 * 16 + y div 16), sextet (y mod 16 * 4), CHR ''=''])"
| "toBase64 (a # b # c # rest) =
     (let x = of_char a :: nat; y = of_char b :: nat; z = of_char c :: nat in
      [sextet (x div 4), sextet (x mod 4 * 16 + y div 16), sextet (y mod 16 * 4 + z div 64),
       sextet (z mod 64)] @ toBase64 rest)"

definition unsextet :: "char \<Rightarrow> nat option" where
  "unsextet c = map_of (zip base64Alphabet [0..<64]) c"

definition octet1 :: "nat \<Rightarrow> nat \<Rightarrow> char" where
  "octet1 i j = char_of (i * 4 + j div 16)"

definition octet2 :: "nat \<Rightarrow> nat \<Rightarrow> char" where
  "octet2 j k = char_of (j mod 16 * 16 + k div 4)"

definition octet3 :: "nat \<Rightarrow> nat \<Rightarrow> char" where
  "octet3 k l = char_of (k mod 4 * 64 + l)"

fun fromBase64 :: "string \<Rightarrow> bytes option" where
  "fromBase64 [] = Some []"
| "fromBase64 (p # q # r # s # rest) =
     (case (unsextet p, unsextet q) of
        (Some i, Some j) \<Rightarrow>
          (if rest = [] \<and> r = CHR ''='' \<and> s = CHR ''='' then Some [octet1 i j]
           else case unsextet r of
             None \<Rightarrow> None
           | Some k \<Rightarrow>
               (if rest = [] \<and> s = CHR ''='' then Some [octet1 i j, octet2 j k]
                else case unsextet s of
                  None \<Rightarrow> None
                | Some l \<Rightarrow>
                    map_option (\<lambda>tail. octet1 i j # octet2 j k # octet3 k l # tail)
                      (fromBase64 rest)))
      | _ \<Rightarrow> None)"
| "fromBase64 _ = None"

section \<open>The remote methods\<close>

record ServerInfo =
  version :: string
  protocol_version :: string
  info_uptime :: int

record ConsignmentGetRes =
  res_consignment :: string
  res_txid :: string
  res_vout :: "jsval option"
  res_sender_amount :: "jsval option"

definition PROTOCOL_VERSION :: string where
  "PROTOCOL_VERSION = ''0.2''"

definition server_info :: "env \<Rightarrow> ServerInfo" where
  "server_info e =
     \<lparr> version = APP_VERSION e, protocol_version = PROTOCOL_VERSION, info_uptime = uptime e \<rparr>"

definition consignment_get :: "env \<Rightarrow> state \<Rightarrow> jsval \<Rightarrow> error + ConsignmentGetRes" where
  "consignment_get e st jsonRpcParams =
     (case getConsignmentOrFail st jsonRpcParams of
        Inl err \<Rightarrow> Inl err
      | Inr consignment \<Rightarrow>
          (case consignmentDir st (filename consignment) of
             None \<Rightarrow> Inl (ENOENT (filename consignment))
           | Some fileBuffer \<Rightarrow>
               (case (case sender_amount consignment of
                        None \<Rightarrow> Inr None
                      | Some text \<Rightarrow>
                          (if text = [] then Inr None
                           else case jsonParse e text of
                             None \<Rightarrow> Inl SyntaxError
                           | Some v \<Rightarrow> Inr (Some v))) of
                  Inl err \<Rightarrow> Inl err
                | Inr senderAmount \<Rightarrow>
                    Inr \<lparr> res_consignment = toBase64 fileBuffer,
                          res_txid = txid consignment,
                          res_vout = vout consignment,
                          res_sender_amount = senderAmount \<rparr>)))"

text \<open>
  An uploaded file is known to a handler by \<open>file.filename\<close>, its name in the
  staging directory. The body of the \<open>try\<close> block of \<open>consignment.post\<close>
  comes first, then the handler with its \<open>catch\<close> block, which removes the staged
  file if it is still there and throws the failure again. A state change made before a
  failure stays.
\<close>

definition consignment_post_try ::
  "env \<Rightarrow> jsval \<Rightarrow> string \<Rightarrow> state \<Rightarrow> (error + bool) \<times> state" where
  "consignment_post_try e jsonRpcParams file st =
     (case getRecipientIDParam jsonRpcParams of
        Inl err \<Rightarrow> (Inl err, st)
      | Inr rid \<Rightarrow>
     (case getTxidParam jsonRpcParams of
        Inl err \<Rightarrow> (Inl err, st)
      | Inr tx \<Rightarrow>
     (case getVoutParam e jsonRpcParams of
        Inl err \<Rightarrow> (Inl err, st)
      | Inr vo \<Rightarrow>
     (let senderAmount = getSenderAmountParam jsonRpcParams in
      case genHashFromFile e st file of
        Inl err \<Rightarrow> (Inl err, st)
      | Inr fileHash \<Rightarrow>
     (case getConsignment st rid of
        Some prevFile \<Rightarrow>
          (if filename prevFile = fileHash then
             (case unlinkSync st file of
                Inl err \<Rightarrow> (Inl err, st)
              | Inr st' \<Rightarrow> (Inr False, st'))
           else (Inl (CannotChangeUploadedFile jsonRpcParams), st))
      | None \<Rightarrow>
          (case renameToConsignmentDir st file fileHash of
             Inl err \<Rightarrow> (Inl err, st)
           | Inr st1 \<Rightarrow>
               (case insertConsignment e st1 rid fileHash tx vo None
                       (case senderAmount of
                          Some amount \<Rightarrow> Some (jsonStringify e amount)
                        | None \<Rightarrow> None) of
                  Inl err \<Rightarrow> (Inl err, st1)
                | Inr st2 \<Rightarrow> (Inr True, st2))))))))"

definition removeUnhandled :: "error \<Rightarrow> string \<Rightarrow> state \<Rightarrow> (error + bool) \<times> state" where
  "removeUnhandled err file st =
     (if existsSync st file then
        (case unlinkSync st file of
           Inl err' \<Rightarrow> (Inl err', st)
         | Inr st' \<Rightarrow> (Inl err, st'))
      else (Inl err, st))"

definition consignment_post ::
  "env \<Rightarrow> jsval \<Rightarrow> string option \<Rightarrow> state \<Rightarrow> (error + bool) \<times> state" where
  "consignment_post e jsonRpcParams file st =
     (case file of
        None \<Rightarrow> (Inl (MissingFile jsonRpcParams), st)
      | Some f \<Rightarrow>
          (case consignment_post_try e jsonRpcParams f st of
             (Inr res, st') \<Rightarrow> (Inr res, st')
           | (Inl err, st') \<Rightarrow> removeUnhandled err f st'))"

definition media_get :: "state \<Rightarrow> jsval \<Rightarrow> error + string" where
  "media_get st jsonRpcParams =
     (case getAttachmentIDParam jsonRpcParams of
        Inl err \<Rightarrow> Inl err
      | Inr aid \<Rightarrow>
          (case getMedia st aid of
             None \<Rightarrow> Inl (NotFoundMedia jsonRpcParams)
           | Some m \<Rightarrow>
               (case mediaDir st (media_filename m) of
                  None \<Rightarrow> Inl (ENOENT (media_filename m))
                | Some fileBuffer \<Rightarrow> Inr (toBase64 fileBuffer))))"

definition media_post_try ::
  "env \<Rightarrow> jsval \<Rightarrow> string option \<Rightarrow> state \<Rightarrow> (error + bool) \<times> state" where
  "media_post_try e jsonRpcParams file st =
     (case getAttachmentIDParam jsonRpcParams of
        Inl err \<Rightarrow> (Inl err, st)
      | Inr aid \<Rightarrow>
     (case file of
        None \<Rightarrow> (Inl (MissingFile jsonRpcParams), st)
      | Some f \<Rightarrow>
     (case genHashFromFile e st f of
        Inl err \<Rightarrow> (Inl err, st)
      | Inr fileHash \<Rightarrow>
     (case getMedia st aid of
        Some prevFile \<Rightarrow>
          (if media_filename prevFile = fileHash then
             (case unlinkSync st f of
                Inl err \<Rightarrow> (Inl err, st)
              | Inr st' \<Rightarrow> (Inr False, st'))
           else (Inl (CannotChangeUploadedFile jsonRpcParams), st))
      | None \<Rightarrow>
          (case renameToMediaDir st f fileHash of
             Inl err \<Rightarrow> (Inl err, st)
           | Inr st1 \<Rightarrow>
               (case insertMedia st1 aid fileHash of
                  Inl err \<Rightarrow> (Inl err, st1)
                | Inr st2 \<Rightarrow> (Inr True, st2)))))))"

definition media_post ::
  "env \<Rightarrow> jsval \<Rightarrow> string option \<Rightarrow> state \<Rightarrow> (error + bool) \<times> state" where
  "media_post e jsonRpcParams file st =
     (case media_post_try e jsonRpcParams file st of
        (Inr res, st') \<Rightarrow> (Inr res, st')
      | (Inl err, st') \<Rightarrow>
          (case file of
             Some f \<Rightarrow> removeUnhandled err f st'
           | None \<Rightarrow> (Inl err, st')))"

definition ack_get :: "state \<Rightarrow> jsval \<Rightarrow> error + bool option" where
  "ack_get st jsonRpcParams =
     (case getConsignmentOrFail st jsonRpcParams of
        Inl err \<Rightarrow> Inl err
      | Inr consignment \<Rightarrow> Inr (ack consignment))"

definition ack_post :: "jsval \<Rightarrow> state \<Rightarrow> (error + bool) \<times> state" where
  "ack_post jsonRpcParams st =
     (case getConsignmentOrFail st jsonRpcParams of
        Inl err \<Rightarrow> (Inl err, st)
      | Inr consignment \<Rightarrow>
          (case getAckParam jsonRpcParams of
             Inl err \<Rightarrow> (Inl err, st)
           | Inr a \<Rightarrow>
               (case ack consignment of
                  Some current \<Rightarrow>
                    (if current = a then (Inr False, st)
                     else (Inl (CannotChangeAck jsonRpcParams), st))
                | None \<Rightarrow>
                    (Inr True,
                     updateAck st (if a then 1 else 0) (recipientID consignment)))))"

section \<open>The dispatcher\<close>

datatype rpc_result =
    ResInfo ServerInfo
  | ResConsignment ConsignmentGetRes
  | ResString string
  | ResBool bool
  | ResAck "bool option"

text \<open>
  \<open>jsonRpcServer.receive\<close>, for a well-formed JSON-RPC 2.0 envelope, from the
  method name on: the handler registered under the name runs on the parameters and the
  uploaded file, and its result or failure is the response.
\<close>

definition wrap :: "('a \<Rightarrow> rpc_result) \<Rightarrow> (error + 'a) \<times> state \<Rightarrow> (error + rpc_result) \<times> state" where
  "wrap f r = (case r of (Inl err, st) \<Rightarrow> (Inl err, st) | (Inr x, st) \<Rightarrow> (Inr (f x), st))"

definition receive ::
  "env \<Rightarrow> string \<Rightarrow> jsval \<Rightarrow> string option \<Rightarrow> state \<Rightarrow> (error + rpc_result) \<times> state" where
  "receive e method jsonRpcParams file st =
     (if method = ''server.info'' then (Inr (ResInfo (server_info e)), st)
      else if method = ''consignment.get''
        then wrap ResConsignment (consignment_get e st jsonRpcParams, st)
      else if method = ''consignment.post''
        then wrap ResBool (consignment_post e jsonRpcParams file st)
      else if method = ''media.get'' then wrap ResString (media_get st jsonRpcParams, st)
      else if method = ''media.post'' then wrap ResBool (media_post e jsonRpcParams file st)
      else if method = ''ack.get'' then wrap ResAck (ack_get st jsonRpcParams, st)
      else if method = ''ack.post'' then wrap ResBool (ack_post jsonRpcParams st)
      else (Inl (MethodNotFound method), st))"

text \<open>
  A request to \<open>/json-rpc\<close>: the method, the parameters as the body parser
  delivered them, and the file part, if any, with the name the upload middleware gave
  it in the staging directory.
\<close>

record request =
  rpc_method :: string
  rpc_params :: jsval
  upload :: "(string \<times> bytes) option"

text \<open>
  The route: the middleware stages the file part; parameters sent as a string are
  parsed; the server answers; then the staged file is removed if it is still there.
  When \<open>JSON.parse\<close> throws, the callback ends there, with no response and no
  removal: the result is \<open>None\<close>.
\<close>

definition stage :: "request \<Rightarrow> state \<Rightarrow> state" where
  "stage req st =
     (case upload req of
        None \<Rightarrow> st
      | Some (name, content) \<Rightarrow> st\<lparr>tempDir := (tempDir st)(name \<mapsto> content)\<rparr>)"

definition deleteUnhandled :: "string option \<Rightarrow> state \<Rightarrow> state" where
  "deleteUnhandled file st =
     (case file of
        None \<Rightarrow> st
      | Some f \<Rightarrow>
          (if existsSync st f then
             (case unlinkSync st f of Inl _ \<Rightarrow> st | Inr st' \<Rightarrow> st')
           else st))"

definition parseParams :: "env \<Rightarrow> jsval \<Rightarrow> jsval option" where
  "parseParams e v = (case v of JStr text \<Rightarrow> jsonParse e text | _ \<Rightarrow> Some v)"

definition json_rpc ::
  "env \<Rightarrow> request \<Rightarrow> state \<Rightarrow> (error + rpc_result) option \<times> state" where
  "json_rpc e req st =
     (let st0 = stage req st;
          file = map_option fst (upload req)
      in case parseParams e (rpc_params req) of
           None \<Rightarrow> (None, st0)
         | Some jsonRpcParams \<Rightarrow>
             (case receive e (rpc_method req) jsonRpcParams file st0 of
                (response, st1) \<Rightarrow> (Some response, deleteUnhandled file st1)))"

text \<open>A sequence of requests, served one after the other.\<close>

fun serve :: "env \<Rightarrow> request list \<Rightarrow> state \<Rightarrow> state" where
  "serve e [] st = st"
| "serve e (req # reqs) st = serve e reqs (snd (json_rpc e req st))"

text \<open>The state of a fresh installation: empty tables and empty directories.\<close>

definition initial :: state where
  "initial = \<lparr> consignments = [], media = [], tempDir = Map.empty,
               consignmentDir = Map.empty, mediaDir = Map.empty \<rparr>"

text \<open>
  A request acknowledges a recipient id when it is an \<open>ack.post\<close> whose
  parameters carry that recipient id.
\<close>

definition acknowledges :: "env \<Rightarrow> string \<Rightarrow> request \<Rightarrow> bool" where
  "acknowledges e rid req =
     (rpc_method req = ''ack.post'' \<and>
      (case parseParams e (rpc_params req) of
         None \<Rightarrow> False
       | Some p \<Rightarrow> getRecipientIDParam p = Inr rid))"

section \<open>Content addressing\<close>

text \<open>
  A permanent directory is content-addressed when each of its files is named by the
  digest of its bytes. \<open>stored_at\<close> is the set of permanent files, each a
  directory and a name, that hold given bytes.
\<close>

definition content_addressed :: "env \<Rightarrow> (string \<rightharpoonup> bytes) \<Rightarrow> bool" where
  "content_addressed e dir = (\<forall>name content. dir name = Some content \<longrightarrow> hashBytes e content = name)"

definition stored_at :: "state \<Rightarrow> bytes \<Rightarrow> (string \<times> string) set" where
  "stored_at st content =
     {(''consignments'', name) | name. consignmentDir st name = Some content} \<union>
     {(''media'', name) | name. mediaDir st name = Some content}"

text \<open>The two upload requests, by their parameters, staged name and file content.\<close>

definition post_request :: "jsval \<Rightarrow> string \<Rightarrow> bytes \<Rightarrow> request" where
  "post_request p f content =
     \<lparr> rpc_method = ''consignment.post'', rpc_params = p, upload = Some (f, content) \<rparr>"

definition media_request :: "jsval \<Rightarrow> string \<Rightarrow> bytes \<Rightarrow> request" where
  "media_request p f content =
     \<lparr> rpc_method = ''media.post'', rpc_params = p, upload = Some (f, content) \<rparr>"

section \<open>A worked scenario\<close>

text \<open>
  An environment to evaluate the model on concrete requests. Its functions stand for the
  platform's on the values the scenario passes to them: the digest is the identity,
  which has no collisions; the one string left to the numeric coercion is not a number;
  the
  one blob that is serialized is the empty object; and the driver binds a number as it
  is.
\<close>

definition example_env :: env where
  "example_env =
     \<lparr> hashBytes = (\<lambda>content. content),
       APP_VERSION = ''0.0.0'',
       uptime = 0,
       coerceNumber = (\<lambda>_. NaN),
       jsonStringify = (\<lambda>_. ''{}''),
       jsonParse = (\<lambda>text. if text = ''{}'' then Some (JObj []) else None),
       bindInteger = (\<lambda>v. case v of JNum n \<Rightarrow> Some v | _ \<Rightarrow> None) \<rparr>"

text \<open>
  The payer posts the bytes \<open>X\<close> for the recipient \<open>blindTest\<close> with txid
  \<open>t1\<close>; the payee acknowledges.
\<close>

definition blindTest_params :: jsval where
  "blindTest_params = JObj [(''recipient_id'', JStr ''blindTest''), (''txid'', JStr ''t1'')]"

definition blindTest_row :: ConsignmentDB where
  "blindTest_row =
     \<lparr> db_recipient_id = ''blindTest'', db_filename = ''X'', db_txid = ''t1'',
       db_vout = JNull, db_ack = None, db_sender_amount = None \<rparr>"

definition blindTest_consignment :: Consignment where
  "blindTest_consignment =
     \<lparr> recipientID = ''blindTest'', filename = ''X'', txid = ''t1'', vout = None, ack = None,
       sender_amount = None \<rparr>"

definition posted :: state where
  "posted =
     \<lparr> consignments = [blindTest_row], media = [], tempDir = Map.empty,
       consignmentDir = [''X'' \<mapsto> ''X''], mediaDir = Map.empty \<rparr>"

definition ack_params :: "bool \<Rightarrow> jsval" where
  "ack_params b = JObj [(''recipient_id'', JStr ''blindTest''), (''ack'', JBool b)]"

definition acked :: state where
  "acked = posted\<lparr>consignments := [blindTest_row\<lparr>db_ack := Some 1\<rparr>]\<rparr>"

text \<open>The same bytes are then posted as the media \<open>attachment\<close>.\<close>

definition media_params :: jsval where
  "media_params = JObj [(''attachment_id'', JStr ''attachment'')]"

definition with_media :: state where
  "with_media =
     posted\<lparr>media := [\<lparr> attachment_id = ''attachment'', media_filename = ''X'' \<rparr>],
            mediaDir := [''X'' \<mapsto> ''X'']\<rparr>"

text \<open>Requests without a file part: the acknowledgment, and the reads.\<close>

definition ack_request :: "bool \<Rightarrow> request" where
  "ack_request b = \<lparr> rpc_method = ''ack.post'', rpc_params = ack_params b, upload = None \<rparr>"

definition recipient_params :: "string \<Rightarrow> jsval" where
  "recipient_params rid = JObj [(''recipient_id'', JStr rid)]"

definition get_request :: "string \<Rightarrow> request" where
  "get_request m =
     \<lparr> rpc_method = m, rpc_params = recipient_params ''blindTest'', upload = None \<rparr>"

text \<open>A second consignment, with an output index and a sender amount.\<close>

definition payee_params :: jsval where
  "payee_params =
     JObj [(''recipient_id'', JStr ''payee''), (''txid'', JStr ''t2''), (''vout'', JNum (Fin 1)),
           (''sender_amount'', JObj [])]"

text \<open>The payee of the second consignment acknowledges it.\<close>

definition payee_ack_request :: request where
  "payee_ack_request =
     \<lparr> rpc_method = ''ack.post'',
       rpc_params = JObj [(''recipient_id'', JStr ''payee''), (''ack'', JBool True)],
       upload = None \<rparr>"







section \<open>Base64 decodes what it encoded\<close>

lemma length_base64Alphabet: "length base64Alphabet = 64"
  by (simp add: base64Alphabet_def)

lemma distinct_base64Alphabet: "distinct base64Alphabet"
  by (simp add: base64Alphabet_def)

lemma unsextet_sextet: "n < 64 \<Longrightarrow> unsextet (sextet n) = Some n"
  unfolding unsextet_def sextet_def
  using map_of_zip_nth[of base64Alphabet "[0..<64]" n]
    length_base64Alphabet distinct_base64Alphabet
  by simp

lemma sextet_not_pad: "sextet n \<noteq> CHR ''=''"
proof -
  have "CHR ''='' \<notin> set base64Alphabet"
    by (simp add: base64Alphabet_def)
  moreover have "sextet n \<in> set base64Alphabet"
    unfolding sextet_def by (simp add: length_base64Alphabet)
  ultimately show ?thesis by metis
qed

lemma first_octet: "y < 256 \<Longrightarrow> x div 4 * 4 + (x mod 4 * 16 + y div 16) div 16 = (x::nat)"
  by (simp add: div_add1_eq)

lemma second_octet:
  assumes y: "y < 256" and z: "z < 256"
  shows "(x mod 4 * 16 + y div 16) mod 16 * 16 + (y mod 16 * 4 + z div 64) div 4 = (y::nat)"
proof -
  have high: "(x mod 4 * 16 + y div 16) mod 16 = y div 16"
    using y by (simp add: mod_add_eq less_mult_imp_div_less)
  have "z div 64 < 4"
    using z by (simp add: less_mult_imp_div_less)
  then have low: "(y mod 16 * 4 + z div 64) div 4 = y mod 16"
    by (simp add: div_add1_eq)
  show ?thesis unfolding high low by simp
qed

lemma third_octet:
  assumes z: "z < 256"
  shows "(y mod 16 * 4 + z div 64) mod 4 * 64 + z mod 64 = (z::nat)"
proof -
  have "z div 64 < 4"
    using z by (simp add: less_mult_imp_div_less)
  then have high: "(y mod 16 * 4 + z div 64) mod 4 = z div 64"
    by (simp add: mod_add_eq)
  show ?thesis unfolding high by simp
qed

lemma sextet1_bound: "x < 256 \<Longrightarrow> x div 4 < (64::nat)"
  by (simp add: less_mult_imp_div_less)

lemma sextet2_bound:
  assumes "y < 256"
  shows "x mod 4 * 16 + y div 16 < (64::nat)"
proof -
  from assms have "y div 16 < 16"
    by (simp add: less_mult_imp_div_less)
  moreover have "x mod 4 < 4" by simp
  ultimately show ?thesis by linarith
qed

lemma sextet3_bound:
  assumes "z < 256"
  shows "y mod 16 * 4 + z div 64 < (64::nat)"
proof -
  from assms have "z div 64 < 4"
    by (simp add: less_mult_imp_div_less)
  moreover have "y mod 16 < 16" by simp
  ultimately show ?thesis by linarith
qed

lemma octet1_sextets:
  "y < 256 \<Longrightarrow> octet1 (of_char a div 4) (of_char a mod 4 * 16 + y div 16) = a"
  using first_octet[of y "of_char a"] by (simp only: octet1_def char_of_char)

lemma octet1_padded: "octet1 (of_char a div 4) (of_char a mod 4 * 16) = a"
  using octet1_sextets[of 0 a] by simp

lemma octet2_sextets:
  "z < 256 \<Longrightarrow>
   octet2 (x mod 4 * 16 + of_char b div 16) (of_char b mod 16 * 4 + z div 64) = b"
  using second_octet[of "of_char b" z x]
  by (simp only: octet2_def nat_of_char_less_256 char_of_char)

lemma octet2_padded: "octet2 (x mod 4 * 16 + of_char b div 16) (of_char b mod 16 * 4) = b"
  using octet2_sextets[of 0 x b] by simp

lemma octet3_sextets: "octet3 (y mod 16 * 4 + of_char c div 64) (of_char c mod 64) = c"
  using third_octet[of "of_char c" y]
  by (simp only: octet3_def nat_of_char_less_256 char_of_char)

lemma fromBase64_toBase64: "fromBase64 (toBase64 content) = Some content"
proof (induction content rule: toBase64.induct)
  case 1
  show ?case by simp
next
  case (2 a)
  let ?x = "of_char a :: nat"
  have x: "?x < 256" by simp
  have pad: "?x mod 4 * 16 < 64"
    using sextet2_bound[of 0 ?x] by simp
  show ?case
    by (simp add: Let_def unsextet_sextet sextet1_bound[OF x] pad sextet_not_pad octet1_padded)
next
  case (3 a b)
  let ?x = "of_char a :: nat"
  let ?y = "of_char b :: nat"
  have x: "?x < 256" and y: "?y < 256" by simp_all
  have pad: "?y mod 16 * 4 < 64"
    using sextet3_bound[of 0 ?y] by simp
  show ?case
    by (simp add: Let_def unsextet_sextet sextet1_bound[OF x] sextet2_bound[OF y] pad
        sextet_not_pad octet1_sextets octet2_padded)
next
  case (4 a b c rest)
  let ?x = "of_char a :: nat"
  let ?y = "of_char b :: nat"
  let ?z = "of_char c :: nat"
  have x: "?x < 256" and y: "?y < 256" and z: "?z < 256" by simp_all
  show ?case using 4
    by (simp add: Let_def unsextet_sextet sextet1_bound[OF x] sextet2_bound[OF y]
        sextet3_bound[OF z] sextet_not_pad octet1_sextets octet2_sextets octet3_sextets)
qed

section \<open>Lookups after an update\<close>

lemma find_map_ack:
  "find (\<lambda>r. db_recipient_id r = rid')
     (map (\<lambda>r. if db_recipient_id r = rid then r\<lparr>db_ack := Some n\<rparr> else r) rows) =
   map_option (\<lambda>r. if db_recipient_id r = rid then r\<lparr>db_ack := Some n\<rparr> else r)
     (find (\<lambda>r. db_recipient_id r = rid') rows)"
  by (induction rows) auto

lemma recipient_row_updateAck:
  "find (\<lambda>r. db_recipient_id r = rid') (consignments (updateAck st n rid)) =
   map_option (\<lambda>r. if db_recipient_id r = rid then r\<lparr>db_ack := Some n\<rparr> else r)
     (find (\<lambda>r. db_recipient_id r = rid') (consignments st))"
  by (simp add: updateAck_def find_map_ack)

lemma getConsignment_updateAck:
  "getConsignment (updateAck st n rid) rid' =
   map_option (\<lambda>c. if rid' = rid then c\<lparr>ack := Some (n \<noteq> 0)\<rparr> else c)
     (getConsignment st rid')"
  apply (simp add: getConsignment_def recipient_row_updateAck split: option.splits)
  apply (auto dest!: find_Some_iff[THEN iffD1])
  done

lemma getConsignment_recipientID:
  "getConsignment st rid = Some c \<Longrightarrow> recipientID c = rid"
  by (auto simp: getConsignment_def split: option.splits dest!: find_Some_iff[THEN iffD1])

section \<open>Integers among the numbers\<close>


section \<open>What each handler changes\<close>

lemmas fs_defs = genHashFromFile_def existsSync_def unlinkSync_def renameToConsignmentDir_def
  renameToMediaDir_def

lemma removeUnhandled_state:
  "removeUnhandled err f st = (r, st') \<Longrightarrow>
   st' = st\<lparr>tempDir := (tempDir st)(f := None)\<rparr> \<and> (\<exists>err'. r = Inl err')"
  by (auto simp: removeUnhandled_def fs_defs fun_upd_idem split: option.splits if_splits)

lemma consignment_post_try_tempDir:
  "consignment_post_try e p f st = (r, st') \<Longrightarrow>
   tempDir st' = tempDir st \<or> tempDir st' = (tempDir st)(f := None)"
  by (auto simp: consignment_post_try_def fs_defs insertConsignment_def Let_def
      split: sum.splits option.splits if_splits)

lemma consignment_post_try_ok_tempDir:
  "consignment_post_try e p f st = (Inr b, st') \<Longrightarrow> tempDir st' = (tempDir st)(f := None)"
  by (auto simp: consignment_post_try_def fs_defs insertConsignment_def Let_def
      split: sum.splits option.splits if_splits)

lemma consignment_post_tempDir:
  "consignment_post e p file st = (r, st') \<Longrightarrow>
   tempDir st' = (case file of None \<Rightarrow> tempDir st | Some f \<Rightarrow> (tempDir st)(f := None))"
  apply (cases "file")
   apply (simp add: consignment_post_def)
  apply (simp add: consignment_post_def split: prod.splits sum.splits)
  apply (auto dest!: removeUnhandled_state consignment_post_try_ok_tempDir dest: consignment_post_try_tempDir)
  done


lemma find_recipient_None:
  "(find (\<lambda>r. db_recipient_id r = rid) rows = None) = (rid \<notin> db_recipient_id ` set rows)"
  by (induction rows) auto

lemma getConsignment_None_iff:
  "getConsignment st rid = None \<longleftrightarrow> rid \<notin> db_recipient_id ` set (consignments st)"
  using find_recipient_None[of rid "consignments st"]
  by (cases "find (\<lambda>r. db_recipient_id r = rid) (consignments st)")
    (auto simp: getConsignment_def)

lemma getMedia_None_iff:
  "getMedia st aid = None \<longleftrightarrow> aid \<notin> attachment_id ` set (media st)"
  by (auto simp: getMedia_def find_None_iff)

lemma consignment_post_try_True:
  assumes "consignment_post_try e p f st = (Inr True, st')"
  shows "\<exists>content rid tx vo stored.
           tempDir st f = Some content \<and> getRecipientIDParam p = Inr rid \<and>
           getTxidParam p = Inr tx \<and> getVoutParam e p = Inr vo \<and>
           (case vo of None \<Rightarrow> Some JNull | Some v \<Rightarrow> bindInteger e v) = Some stored \<and>
           getConsignment st rid = None \<and>
           st' = st\<lparr>tempDir := (tempDir st)(f := None),
                    consignmentDir := (consignmentDir st)(hashBytes e content \<mapsto> content),
                    consignments := consignments st @
                      [\<lparr> db_recipient_id = rid, db_filename = hashBytes e content, db_txid = tx,
                         db_vout = stored, db_ack = None,
                         db_sender_amount =
                           (case getSenderAmountParam p of
                              Some amount \<Rightarrow> Some (jsonStringify e amount)
                            | None \<Rightarrow> None) \<rparr>]\<rparr>"
  using assms
  by (auto simp: consignment_post_try_def fs_defs insertConsignment_def Let_def
      split: sum.splits option.splits if_splits)

lemma consignment_post_try_other:
  "consignment_post_try e p f st = (r, st') \<Longrightarrow> r \<noteq> Inr True \<Longrightarrow>
   consignments st' = consignments st"
  by (auto simp: consignment_post_try_def fs_defs insertConsignment_def Let_def
      split: sum.splits option.splits if_splits)

lemma consignment_post_try_media:
  "consignment_post_try e p f st = (r, st') \<Longrightarrow>
   media st' = media st \<and> mediaDir st' = mediaDir st"
  by (auto simp: consignment_post_try_def fs_defs insertConsignment_def Let_def
      split: sum.splits option.splits if_splits)

lemma consignment_post_try_consignmentDir:
  "consignment_post_try e p f st = (r, st') \<Longrightarrow>
   consignmentDir st' = consignmentDir st \<or>
   (\<exists>content. tempDir st f = Some content \<and>
      consignmentDir st' = (consignmentDir st)(hashBytes e content \<mapsto> content))"
  by (auto simp: consignment_post_try_def fs_defs insertConsignment_def Let_def
      split: sum.splits option.splits if_splits)


lemma consignment_post_True:
  assumes "consignment_post e p fl st = (Inr True, st')"
  shows "\<exists>f. fl = Some f \<and> consignment_post_try e p f st = (Inr True, st')"
  using assms
  by (cases fl)
    (auto simp: consignment_post_def split: prod.splits sum.splits dest: removeUnhandled_state)

lemma consignment_post_other:
  assumes "consignment_post e p fl st = (r, st')" and "r \<noteq> Inr True"
  shows "consignments st' = consignments st"
proof (cases fl)
  case None
  with assms show ?thesis by (simp add: consignment_post_def)
next
  case (Some f)
  obtain r0 st0 where body: "consignment_post_try e p f st = (r0, st0)"
    by (cases "consignment_post_try e p f st")
  show ?thesis
  proof (cases r0)
    case (Inl err)
    with assms Some body have "removeUnhandled err f st0 = (r, st')"
      by (simp add: consignment_post_def)
    then have "consignments st' = consignments st0"
      by (auto dest: removeUnhandled_state)
    moreover have "consignments st0 = consignments st"
      using body Inl by (auto dest: consignment_post_try_other)
    ultimately show ?thesis by simp
  next
    case (Inr b)
    with assms Some body have "r = Inr b" "st' = st0"
      by (simp_all add: consignment_post_def)
    with assms body Inr show ?thesis
      by (auto dest: consignment_post_try_other)
  qed
qed

lemma consignment_post_media:
  assumes "consignment_post e p fl st = (r, st')"
  shows "media st' = media st \<and> mediaDir st' = mediaDir st"
  using assms
  by (cases fl)
    (auto simp: consignment_post_def split: prod.splits sum.splits
      dest!: removeUnhandled_state consignment_post_try_media)

lemma consignment_post_consignmentDir:
  assumes "consignment_post e p fl st = (r, st')"
  shows "consignmentDir st' = consignmentDir st \<or>
         (\<exists>f content. fl = Some f \<and> tempDir st f = Some content \<and>
            consignmentDir st' = (consignmentDir st)(hashBytes e content \<mapsto> content))"
  using assms
  by (cases fl)
    (auto simp: consignment_post_def split: prod.splits sum.splits
      dest!: removeUnhandled_state consignment_post_try_consignmentDir)

lemma media_post_try_True:
  assumes "media_post_try e p fl st = (Inr True, st')"
  shows "\<exists>f content aid.
           fl = Some f \<and> tempDir st f = Some content \<and> getAttachmentIDParam p = Inr aid \<and>
           getMedia st aid = None \<and>
           st' = st\<lparr>tempDir := (tempDir st)(f := None),
                    mediaDir := (mediaDir st)(hashBytes e content \<mapsto> content),
                    media := media st @
                      [\<lparr> attachment_id = aid, media_filename = hashBytes e content \<rparr>]\<rparr>"
  using assms
  by (auto simp: media_post_try_def fs_defs insertMedia_def
      split: sum.splits option.splits if_splits)

lemma media_post_try_other:
  "media_post_try e p fl st = (r, st') \<Longrightarrow> r \<noteq> Inr True \<Longrightarrow> media st' = media st"
  by (auto simp: media_post_try_def fs_defs insertMedia_def
      split: sum.splits option.splits if_splits)

lemma media_post_try_consignments:
  "media_post_try e p fl st = (r, st') \<Longrightarrow>
   consignments st' = consignments st \<and> consignmentDir st' = consignmentDir st"
  by (auto simp: media_post_try_def fs_defs insertMedia_def
      split: sum.splits option.splits if_splits)

lemma media_post_try_mediaDir:
  "media_post_try e p fl st = (r, st') \<Longrightarrow>
   mediaDir st' = mediaDir st \<or>
   (\<exists>f content. fl = Some f \<and> tempDir st f = Some content \<and>
      mediaDir st' = (mediaDir st)(hashBytes e content \<mapsto> content))"
  by (auto simp: media_post_try_def fs_defs insertMedia_def
      split: sum.splits option.splits if_splits)

lemma media_post_try_tempDir:
  "media_post_try e p fl st = (r, st') \<Longrightarrow>
   tempDir st' = tempDir st \<or> (\<exists>f. fl = Some f \<and> tempDir st' = (tempDir st)(f := None))"
  by (auto simp: media_post_try_def fs_defs insertMedia_def
      split: sum.splits option.splits if_splits)

lemma media_post_try_ok_tempDir:
  "media_post_try e p fl st = (Inr b, st') \<Longrightarrow>
   \<exists>f. fl = Some f \<and> tempDir st' = (tempDir st)(f := None)"
  by (auto simp: media_post_try_def fs_defs insertMedia_def
      split: sum.splits option.splits if_splits)

lemma media_post_tempDir:
  "media_post e p fl st = (r, st') \<Longrightarrow>
   tempDir st' = (case fl of None \<Rightarrow> tempDir st | Some f \<Rightarrow> (tempDir st)(f := None))"
  apply (simp add: media_post_def split: prod.splits sum.splits option.splits)
    apply (auto dest!: removeUnhandled_state media_post_try_ok_tempDir dest: media_post_try_tempDir)
  done

lemma media_post_True:
  assumes "media_post e p fl st = (Inr True, st')"
  shows "media_post_try e p fl st = (Inr True, st')"
  using assms
  by (auto simp: media_post_def split: prod.splits sum.splits option.splits
      dest: removeUnhandled_state)

lemma media_post_other:
  assumes "media_post e p fl st = (r, st')" and "r \<noteq> Inr True"
  shows "media st' = media st"
proof -
  obtain r0 st0 where body: "media_post_try e p fl st = (r0, st0)"
    by (cases "media_post_try e p fl st")
  show ?thesis
  proof (cases r0)
    case (Inl err)
    with assms body have "media st' = media st0"
      by (auto simp: media_post_def split: option.splits dest: removeUnhandled_state)
    moreover have "media st0 = media st"
      using body Inl by (auto dest: media_post_try_other)
    ultimately show ?thesis by simp
  next
    case (Inr b)
    with assms body have "r = Inr b" "st' = st0"
      by (simp_all add: media_post_def)
    with assms body Inr show ?thesis
      by (auto dest: media_post_try_other)
  qed
qed

lemma media_post_consignments:
  assumes "media_post e p fl st = (r, st')"
  shows "consignments st' = consignments st \<and> consignmentDir st' = consignmentDir st"
  using assms
  by (auto simp: media_post_def split: prod.splits sum.splits option.splits
      dest!: removeUnhandled_state media_post_try_consignments)

lemma media_post_mediaDir:
  assumes "media_post e p fl st = (r, st')"
  shows "mediaDir st' = mediaDir st \<or>
         (\<exists>f content. fl = Some f \<and> tempDir st f = Some content \<and>
            mediaDir st' = (mediaDir st)(hashBytes e content \<mapsto> content))"
  using assms
  by (auto simp: media_post_def split: prod.splits sum.splits option.splits
      dest!: removeUnhandled_state media_post_try_mediaDir)

lemma ack_post_state:
  assumes "ack_post p st = (r, st')"
  shows "st' = st \<and> r \<noteq> Inr True \<or>
         (\<exists>c a. r = Inr True \<and> getConsignmentOrFail st p = Inr c \<and> getAckParam p = Inr a \<and>
            ack c = None \<and> st' = updateAck st (if a then 1 else 0) (recipientID c))"
proof (cases "getConsignmentOrFail st p")
  case (Inl err)
  with assms have "r = Inl err" "st' = st" by (simp_all add: ack_post_def)
  then show ?thesis by simp
next
  case c: (Inr c)
  show ?thesis
  proof (cases "getAckParam p")
    case (Inl err)
    with assms c have "r = Inl err" "st' = st" by (simp_all add: ack_post_def)
    then show ?thesis by simp
  next
    case a: (Inr a)
    show ?thesis
    proof (cases "ack c")
      case None
      with assms c a have "r = Inr True" "st' = updateAck st (if a then 1 else 0) (recipientID c)"
        by (simp_all add: ack_post_def)
      with c a None show ?thesis by blast
    next
      case (Some current)
      with assms c a have "st' = st" "r \<noteq> Inr True"
        by (auto simp: ack_post_def split: if_splits)
      then show ?thesis by simp
    qed
  qed
qed

lemma wrap_eq:
  "wrap f x = (r, st') \<longleftrightarrow>
   (\<exists>r0. x = (r0, st') \<and> r = (case r0 of Inl err \<Rightarrow> Inl err | Inr v \<Rightarrow> Inr (f v)))"
  by (cases x; cases "fst x") (auto simp: wrap_def)

lemma receive_consignments:
  assumes "receive e m p fl st = (r, st')"
  shows "consignments st' = consignments st \<or>
         (m = ''consignment.post'' \<and> r = Inr (ResBool True) \<and>
            (\<exists>f. fl = Some f \<and> consignment_post_try e p f st = (Inr True, st'))) \<or>
         (m = ''ack.post'' \<and> r = Inr (ResBool True) \<and>
            (\<exists>c a. getConsignmentOrFail st p = Inr c \<and> getAckParam p = Inr a \<and>
               ack c = None \<and> st' = updateAck st (if a then 1 else 0) (recipientID c)))"
proof -
  consider (cpost) "m = ''consignment.post''" | (mpost) "m = ''media.post''"
    | (apost) "m = ''ack.post''"
    | (other) "m \<noteq> ''consignment.post''" "m \<noteq> ''media.post''" "m \<noteq> ''ack.post''"
    by blast
  then show ?thesis
  proof cases
    case cpost
    with assms obtain r0 where r0: "consignment_post e p fl st = (r0, st')"
      and r: "r = (case r0 of Inl err \<Rightarrow> Inl err | Inr v \<Rightarrow> Inr (ResBool v))"
      by (auto simp: receive_def wrap_eq)
    show ?thesis
    proof (cases "r0 = Inr True")
      case True
      with r0 r cpost show ?thesis
        by (auto dest: consignment_post_True)
    next
      case False
      with r0 show ?thesis
        by (auto dest: consignment_post_other)
    qed
  next
    case mpost
    with assms obtain r0 where "media_post e p fl st = (r0, st')"
      by (auto simp: receive_def wrap_eq)
    then show ?thesis
      by (auto dest: media_post_consignments)
  next
    case apost
    with assms obtain r0 where r0: "ack_post p st = (r0, st')"
      and r: "r = (case r0 of Inl err \<Rightarrow> Inl err | Inr v \<Rightarrow> Inr (ResBool v))"
      by (auto simp: receive_def wrap_eq)
    from ack_post_state[OF r0] show ?thesis
    proof
      assume "st' = st \<and> r0 \<noteq> Inr True"
      then show ?thesis by simp
    next
      assume "\<exists>c a. r0 = Inr True \<and> getConsignmentOrFail st p = Inr c \<and>
                getAckParam p = Inr a \<and> ack c = None \<and>
                st' = updateAck st (if a then 1 else 0) (recipientID c)"
      then obtain c a where "r0 = Inr True" "getConsignmentOrFail st p = Inr c"
        "getAckParam p = Inr a" "ack c = None"
        "st' = updateAck st (if a then 1 else 0) (recipientID c)"
        by blast
      with r apost show ?thesis by simp
    qed
  next
    case other
    with assms have "st' = st"
      by (auto simp: receive_def wrap_eq split: if_splits)
    then show ?thesis by simp
  qed
qed

lemma stage_frame:
  "consignments (stage req st) = consignments st \<and> media (stage req st) = media st \<and>
   consignmentDir (stage req st) = consignmentDir st \<and> mediaDir (stage req st) = mediaDir st"
  by (simp add: stage_def split: option.splits prod.splits)

lemma stage_tempDir:
  "tempDir (stage req st) =
   (case upload req of None \<Rightarrow> tempDir st | Some (f, content) \<Rightarrow> (tempDir st)(f \<mapsto> content))"
  by (simp add: stage_def split: option.splits prod.splits)

lemma deleteUnhandled_state:
  "deleteUnhandled fl st =
   (case fl of None \<Rightarrow> st | Some f \<Rightarrow> st\<lparr>tempDir := (tempDir st)(f := None)\<rparr>)"
  by (auto simp: deleteUnhandled_def fs_defs fun_upd_idem split: option.splits)

lemma json_rpc_cases:
  assumes "json_rpc e req st = (r, st')"
  obtains (no_response) "r = None" "st' = stage req st"
  | (response) resp p st1 where "r = Some resp"
      "receive e (rpc_method req) p (map_option fst (upload req)) (stage req st) = (resp, st1)"
      "st' = deleteUnhandled (map_option fst (upload req)) st1"
      "parseParams e (rpc_params req) = Some p"
proof (cases "parseParams e (rpc_params req)")
  case None
  with assms have "r = None" "st' = stage req st"
    by (simp_all add: json_rpc_def Let_def)
  then show ?thesis by (rule no_response)
next
  case (Some p)
  obtain resp st1 where rcv:
    "receive e (rpc_method req) p (map_option fst (upload req)) (stage req st) = (resp, st1)"
    by (cases "receive e (rpc_method req) p (map_option fst (upload req)) (stage req st)")
  with assms Some have r: "r = Some resp"
    and st': "st' = deleteUnhandled (map_option fst (upload req)) st1"
    by (simp_all add: json_rpc_def Let_def)
  from r rcv st' Some show ?thesis by (rule response)
qed

lemma find_append:
  "find P (xs @ ys) = (case find P xs of None \<Rightarrow> find P ys | Some x \<Rightarrow> Some x)"
  by (induction xs) auto

lemma getConsignment_cong:
  "consignments st' = consignments st \<Longrightarrow> getConsignment st' rid = getConsignment st rid"
  by (simp add: getConsignment_def)

lemma getConsignment_append:
  "consignments st' = consignments st @ [row] \<Longrightarrow> getConsignment st rid = Some c \<Longrightarrow>
   getConsignment st' rid = Some c"
  by (auto simp: getConsignment_def find_append split: option.splits)

section \<open>What a request changes\<close>

lemma deleteUnhandled_consignments:
  "consignments (deleteUnhandled fl st) = consignments st"
  by (simp add: deleteUnhandled_state split: option.splits)

lemma getConsignment_stage:
  "getConsignment (stage req st) rid = getConsignment st rid"
  by (simp add: getConsignment_def stage_frame)

lemma getConsignmentOrFail_stage:
  "getConsignmentOrFail (stage req st) p = getConsignmentOrFail st p"
  by (simp add: getConsignmentOrFail_def getConsignment_stage split: sum.splits)

lemma getConsignment_deleteUnhandled:
  "getConsignment (deleteUnhandled fl st) rid = getConsignment st rid"
  by (simp add: getConsignment_def deleteUnhandled_consignments)

lemma json_rpc_record_step:
  assumes "json_rpc e req st = (r, st')" and c: "getConsignment st rid = Some c"
  shows "getConsignment st' rid = Some c \<or>
         (rpc_method req = ''ack.post'' \<and> r = Some (Inr (ResBool True)) \<and> ack c = None \<and>
            (\<exists>a. getConsignment st' rid = Some (c\<lparr>ack := Some a\<rparr>)))"
  using assms(1)
proof (cases rule: json_rpc_cases)
  case no_response
  with c show ?thesis by (simp add: getConsignment_stage)
next
  case (response resp p st1)
  let ?st0 = "stage req st"
  have c0: "getConsignment ?st0 rid = Some c"
    using c by (simp add: getConsignment_stage)
  have final: "getConsignment st' rid = getConsignment st1 rid"
    using response(3) by (simp add: getConsignment_deleteUnhandled)
  from receive_consignments[OF response(2)] show ?thesis
  proof (elim disjE conjE exE)
    assume "consignments st1 = consignments ?st0"
    from getConsignment_cong[OF this, of rid] have "getConsignment st1 rid = Some c"
      using c0 by simp
    with final show ?thesis by simp
  next
    fix f
    assume "consignment_post_try e p f ?st0 = (Inr True, st1)"
    from consignment_post_try_True[OF this] obtain row where
      "consignments st1 = consignments ?st0 @ [row]"
      by auto
    then have "getConsignment st1 rid = Some c"
      using c0 by (rule getConsignment_append)
    with final show ?thesis by simp
  next
    fix c' a
    assume m: "rpc_method req = ''ack.post''" and r: "resp = Inr (ResBool True)"
      and c': "getConsignmentOrFail ?st0 p = Inr c'" and unset: "ack c' = None"
      and st1: "st1 = updateAck ?st0 (if a then 1 else 0) (recipientID c')"
    from c' obtain rid' where rid': "getConsignment ?st0 rid' = Some c'"
      by (auto simp: getConsignmentOrFail_def split: sum.splits option.splits)
    then have same: "recipientID c' = rid'"
      by (rule getConsignment_recipientID)
    show ?thesis
    proof (cases "rid = rid'")
      case True
      with rid' c0 have "c' = c" by simp
      with True st1 same c0 have "getConsignment st1 rid = Some (c\<lparr>ack := Some a\<rparr>)"
        by (simp add: getConsignment_updateAck)
      with final m r unset \<open>c' = c\<close> response(1) show ?thesis by auto
    next
      case False
      with st1 same c0 have "getConsignment st1 rid = Some c"
        by (simp add: getConsignment_updateAck)
      with final show ?thesis by simp
    qed
  qed
qed


lemma receive_post_True:
  assumes "receive e ''consignment.post'' p fl st = (Inr (ResBool True), st')"
  shows "\<exists>f. fl = Some f \<and> consignment_post_try e p f st = (Inr True, st')"
proof -
  from assms obtain r0 where r0: "consignment_post e p fl st = (r0, st')"
    and r: "Inr (ResBool True) = (case r0 of Inl err \<Rightarrow> Inl err | Inr v \<Rightarrow> Inr (ResBool v))"
    by (auto simp: receive_def wrap_eq)
  from r have "r0 = Inr True"
    by (cases r0) auto
  with r0 show ?thesis
    by (auto dest: consignment_post_True)
qed

lemma json_rpc_post_True:
  assumes "json_rpc e req st = (Some (Inr (ResBool True)), st')"
    and "rpc_method req = ''consignment.post''"
  shows "\<exists>p f content rid tx vo stored.
           parseParams e (rpc_params req) = Some p \<and> upload req = Some (f, content) \<and>
           getRecipientIDParam p = Inr rid \<and> getTxidParam p = Inr tx \<and>
           getVoutParam e p = Inr vo \<and>
           (case vo of None \<Rightarrow> Some JNull | Some v \<Rightarrow> bindInteger e v) = Some stored \<and>
           getConsignment st rid = None \<and>
           st' = st\<lparr>tempDir := (tempDir st)(f := None),
                    consignmentDir := (consignmentDir st)(hashBytes e content \<mapsto> content),
                    consignments := consignments st @
                      [\<lparr> db_recipient_id = rid, db_filename = hashBytes e content, db_txid = tx,
                         db_vout = stored, db_ack = None,
                         db_sender_amount =
                           (case getSenderAmountParam p of
                              Some amount \<Rightarrow> Some (jsonStringify e amount)
                            | None \<Rightarrow> None) \<rparr>]\<rparr>"
  using assms(1)
proof (cases rule: json_rpc_cases)
  case no_response
  then show ?thesis by simp
next
  case (response resp p st1)
  let ?st0 = "stage req st"
  from response(1,2) assms(2)
  have "receive e ''consignment.post'' p (map_option fst (upload req)) ?st0 = (Inr (ResBool True), st1)"
    by simp
  from receive_post_True[OF this] obtain f where f: "map_option fst (upload req) = Some f"
    and body: "consignment_post_try e p f ?st0 = (Inr True, st1)"
    by blast
  from f obtain content where up: "upload req = Some (f, content)"
    by (cases "upload req") auto
  have t0: "tempDir ?st0 = (tempDir st)(f \<mapsto> content)"
    by (simp add: stage_tempDir up)
  from consignment_post_try_True[OF body] obtain content' rid tx vo stored where
    c': "tempDir ?st0 f = Some content'" and rid: "getRecipientIDParam p = Inr rid"
    and tx: "getTxidParam p = Inr tx" and vo: "getVoutParam e p = Inr vo"
    and stored: "(case vo of None \<Rightarrow> Some JNull | Some v \<Rightarrow> bindInteger e v) = Some stored"
    and fresh: "getConsignment ?st0 rid = None"
    and st1: "st1 = ?st0\<lparr>tempDir := (tempDir ?st0)(f := None),
                    consignmentDir := (consignmentDir ?st0)(hashBytes e content' \<mapsto> content'),
                    consignments := consignments ?st0 @
                      [\<lparr> db_recipient_id = rid, db_filename = hashBytes e content', db_txid = tx,
                         db_vout = stored, db_ack = None,
                         db_sender_amount =
                           (case getSenderAmountParam p of
                              Some amount \<Rightarrow> Some (jsonStringify e amount)
                            | None \<Rightarrow> None) \<rparr>]\<rparr>"
    by blast
  from c' t0 have same: "content' = content" by simp
  have "st' = st\<lparr>tempDir := (tempDir st)(f := None),
                    consignmentDir := (consignmentDir st)(hashBytes e content \<mapsto> content),
                    consignments := consignments st @
                      [\<lparr> db_recipient_id = rid, db_filename = hashBytes e content, db_txid = tx,
                         db_vout = stored, db_ack = None,
                         db_sender_amount =
                           (case getSenderAmountParam p of
                              Some amount \<Rightarrow> Some (jsonStringify e amount)
                            | None \<Rightarrow> None) \<rparr>]\<rparr>"
    unfolding response(3) st1 same f
    by (simp add: deleteUnhandled_state stage_def up)
  moreover have "getConsignment st rid = None"
    using fresh by (simp add: getConsignment_stage)
  ultimately show ?thesis
    using response(4) up rid tx vo stored by blast
qed


lemma getConsignment_other_fields:
  "getConsignment (st\<lparr>tempDir := t\<rparr>) rid = getConsignment st rid"
  "getConsignment (st\<lparr>consignmentDir := d\<rparr>) rid = getConsignment st rid"
  "getConsignment (st\<lparr>mediaDir := d\<rparr>) rid = getConsignment st rid"
  "getConsignment (st\<lparr>media := m\<rparr>) rid = getConsignment st rid"
  by (simp_all add: getConsignment_def)

lemma getMedia_other_fields:
  "getMedia (st\<lparr>tempDir := t\<rparr>) aid = getMedia st aid"
  "getMedia (st\<lparr>consignmentDir := d\<rparr>) aid = getMedia st aid"
  "getMedia (st\<lparr>mediaDir := d\<rparr>) aid = getMedia st aid"
  "getMedia (st\<lparr>consignments := m\<rparr>) aid = getMedia st aid"
  by (simp_all add: getMedia_def)

lemma parseParams_dictionary:
  "isDictionary p \<Longrightarrow> parseParams e p = Some p"
  by (cases p) (simp_all add: parseParams_def isDictionary_def)

lemma getRecipientIDParam_dictionary:
  "getRecipientIDParam p = Inr rid \<Longrightarrow> isDictionary p"
  by (auto simp: getRecipientIDParam_def split: if_splits)

lemma getAttachmentIDParam_dictionary:
  "getAttachmentIDParam p = Inr aid \<Longrightarrow> isDictionary p"
  by (auto simp: getAttachmentIDParam_def split: if_splits)

lemma json_rpc_post_fresh:
  assumes "getRecipientIDParam p = Inr rid" and "getTxidParam p = Inr tx"
    and "getVoutParam e p = Inr vo"
    and "(case vo of None \<Rightarrow> Some JNull | Some v \<Rightarrow> bindInteger e v) = Some stored"
    and "getConsignment st rid = None"
  shows "json_rpc e
           \<lparr> rpc_method = ''consignment.post'', rpc_params = p, upload = Some (f, content) \<rparr> st =
         (Some (Inr (ResBool True)),
          st\<lparr>tempDir := (tempDir st)(f := None),
             consignmentDir := (consignmentDir st)(hashBytes e content \<mapsto> content),
             consignments := consignments st @
               [\<lparr> db_recipient_id = rid, db_filename = hashBytes e content, db_txid = tx,
                  db_vout = stored, db_ack = None,
                  db_sender_amount =
                    (case getSenderAmountParam p of
                       Some amount \<Rightarrow> Some (jsonStringify e amount)
                     | None \<Rightarrow> None) \<rparr>]\<rparr>)"
proof -
  have p: "parseParams e p = Some p"
    using assms(1) by (intro parseParams_dictionary getRecipientIDParam_dictionary)
  have fresh: "rid \<notin> db_recipient_id ` set (consignments st)"
    using assms(5) by (simp add: getConsignment_None_iff)
  show ?thesis
    using assms fresh
    by (simp add: json_rpc_def p stage_def receive_def wrap_def consignment_post_def
        consignment_post_try_def fs_defs insertConsignment_def deleteUnhandled_def
        getConsignment_other_fields Let_def)
qed



lemma json_rpc_media_fresh:
  assumes "getAttachmentIDParam p = Inr aid" and "getMedia st aid = None"
  shows "json_rpc e
           \<lparr> rpc_method = ''media.post'', rpc_params = p, upload = Some (f, content) \<rparr> st =
         (Some (Inr (ResBool True)),
          st\<lparr>tempDir := (tempDir st)(f := None),
             mediaDir := (mediaDir st)(hashBytes e content \<mapsto> content),
             media := media st @
               [\<lparr> attachment_id = aid, media_filename = hashBytes e content \<rparr>]\<rparr>)"
proof -
  have p: "parseParams e p = Some p"
    using assms(1) by (intro parseParams_dictionary getAttachmentIDParam_dictionary)
  have fresh: "aid \<notin> attachment_id ` set (media st)"
    using assms(2) by (simp add: getMedia_None_iff)
  show ?thesis
    using assms fresh
    by (simp add: json_rpc_def p stage_def receive_def wrap_def media_post_def
        media_post_try_def fs_defs insertMedia_def deleteUnhandled_def
        getMedia_other_fields)
qed

lemma json_rpc_media_same:
  assumes "getAttachmentIDParam p = Inr aid"
    and "getMedia st aid = Some m" and "media_filename m = hashBytes e content"
  shows "json_rpc e
           \<lparr> rpc_method = ''media.post'', rpc_params = p, upload = Some (f, content) \<rparr> st =
         (Some (Inr (ResBool False)), st\<lparr>tempDir := (tempDir st)(f := None)\<rparr>)"
proof -
  have p: "parseParams e p = Some p"
    using assms(1) by (intro parseParams_dictionary getAttachmentIDParam_dictionary)
  show ?thesis
    using assms
    by (simp add: json_rpc_def p stage_def receive_def wrap_def media_post_def
        media_post_try_def fs_defs deleteUnhandled_def getMedia_other_fields)
qed


lemma getConsignment_appended:
  assumes "getConsignment st rid = None"
  shows "getConsignment (st\<lparr>consignments := consignments st @ [row]\<rparr>) rid' =
         (if rid' = db_recipient_id row \<and> getConsignment st rid' = None then
            Some \<lparr> recipientID = db_recipient_id row, filename = db_filename row,
                   txid = db_txid row,
                   vout = (if db_vout row = JNull \<or> db_vout row = JUndefined then None
                           else Some (db_vout row)),
                   ack = (case db_ack row of Some n \<Rightarrow> Some (n \<noteq> 0) | None \<Rightarrow> None),
                   sender_amount = db_sender_amount row \<rparr>
          else getConsignment st rid')"
  by (auto simp: getConsignment_def find_append split: option.splits)


lemma json_rpc_record_created:
  assumes "json_rpc e req st = (r, st')" and none: "getConsignment st rid = None"
    and c: "getConsignment st' rid = Some c"
  shows "rpc_method req = ''consignment.post'' \<and> r = Some (Inr (ResBool True)) \<and> ack c = None"
  using assms(1)
proof (cases rule: json_rpc_cases)
  case no_response
  with none c show ?thesis by (simp add: getConsignment_stage)
next
  case (response resp p st1)
  let ?st0 = "stage req st"
  have none0: "getConsignment ?st0 rid = None"
    using none by (simp add: getConsignment_stage)
  have final: "getConsignment st1 rid = Some c"
    using response(3) c by (simp add: getConsignment_deleteUnhandled)
  from receive_consignments[OF response(2)] show ?thesis
  proof (elim disjE conjE exE)
    assume "consignments st1 = consignments ?st0"
    from getConsignment_cong[OF this, of rid] none0 final show ?thesis by simp
  next
    fix f
    assume m: "rpc_method req = ''consignment.post''" and r: "resp = Inr (ResBool True)"
      and body: "consignment_post_try e p f ?st0 = (Inr True, st1)"
    from consignment_post_try_True[OF body] obtain row where
      st1: "consignments st1 = consignments ?st0 @ [row]" and unset: "db_ack row = None"
      by auto
    from none0 have "find (\<lambda>r. db_recipient_id r = rid) (consignments ?st0) = None"
      by (simp add: getConsignment_def split: option.splits)
    with final st1 unset have "ack c = None"
      by (auto simp: getConsignment_def find_append split: option.splits if_splits)
    with m r response(1) show ?thesis by simp
  next
    fix c' a
    assume st1: "st1 = updateAck ?st0 (if a then 1 else 0) (recipientID c')"
    with none0 final show ?thesis
      by (simp add: getConsignment_updateAck)
  qed
qed

lemma serve_record:
  "getConsignment st rid = Some c \<Longrightarrow>
   \<exists>a. getConsignment (serve e reqs st) rid = Some (c\<lparr>ack := a\<rparr>)"
proof (induction reqs arbitrary: st c)
  case Nil
  then have "getConsignment (serve e [] st) rid = Some (c\<lparr>ack := ack c\<rparr>)" by simp
  then show ?case by blast
next
  case (Cons req reqs)
  obtain r st' where step: "json_rpc e req st = (r, st')"
    by (cases "json_rpc e req st")
  from json_rpc_record_step[OF step Cons.prems] obtain a where
    "getConsignment st' rid = Some (c\<lparr>ack := a\<rparr>)"
  proof (elim disjE conjE exE)
    assume "getConsignment st' rid = Some c"
    then have "getConsignment st' rid = Some (c\<lparr>ack := ack c\<rparr>)" by simp
    then show ?thesis by (rule that)
  next
    fix a
    assume "getConsignment st' rid = Some (c\<lparr>ack := Some a\<rparr>)"
    then show ?thesis by (rule that)
  qed
  from Cons.IH[OF this] obtain a' where
    "getConsignment (serve e reqs st') rid = Some (c\<lparr>ack := a, ack := a'\<rparr>)"
    by blast
  then have "getConsignment (serve e (req # reqs) st) rid = Some (c\<lparr>ack := a'\<rparr>)"
    using step by simp
  then show ?case by blast
qed

lemma serve_terminal:
  "getConsignment st rid = Some c \<Longrightarrow> ack c \<noteq> None \<Longrightarrow>
   getConsignment (serve e reqs st) rid = Some c"
proof (induction reqs arbitrary: st)
  case Nil
  then show ?case by simp
next
  case (Cons req reqs)
  obtain r st' where step: "json_rpc e req st = (r, st')"
    by (cases "json_rpc e req st")
  from json_rpc_record_step[OF step Cons.prems(1)] Cons.prems(2)
  have "getConsignment st' rid = Some c" by blast
  from Cons.IH[OF this Cons.prems(2)] step show ?case by simp
qed

lemma json_rpc_post_True_record:
  assumes "json_rpc e req st = (Some (Inr (ResBool True)), st')"
    and "rpc_method req = ''consignment.post''"
    and "parseParams e (rpc_params req) = Some p"
    and "getRecipientIDParam p = Inr rid"
  shows "\<exists>content f tx vo stored.
           upload req = Some (f, content) \<and> getTxidParam p = Inr tx \<and>
           getVoutParam e p = Inr vo \<and>
           (case vo of None \<Rightarrow> Some JNull | Some v \<Rightarrow> bindInteger e v) = Some stored \<and>
           getConsignment st rid = None \<and>
           consignmentDir st' = (consignmentDir st)(hashBytes e content \<mapsto> content) \<and>
           getConsignment st' rid =
             Some \<lparr> recipientID = rid, filename = hashBytes e content, txid = tx,
                    vout = (if stored = JNull \<or> stored = JUndefined then None else Some stored),
                    ack = None,
                    sender_amount =
                      (case getSenderAmountParam p of
                         Some amount \<Rightarrow> Some (jsonStringify e amount)
                       | None \<Rightarrow> None) \<rparr>"
proof -
  from json_rpc_post_True[OF assms(1,2)] assms(3,4)
  obtain f content tx vo stored where up: "upload req = Some (f, content)"
    and tx: "getTxidParam p = Inr tx" and vo: "getVoutParam e p = Inr vo"
    and stored: "(case vo of None \<Rightarrow> Some JNull | Some v \<Rightarrow> bindInteger e v) = Some stored"
    and fresh: "getConsignment st rid = None"
    and st': "st' = st\<lparr>tempDir := (tempDir st)(f := None),
                    consignmentDir := (consignmentDir st)(hashBytes e content \<mapsto> content),
                    consignments := consignments st @
                      [\<lparr> db_recipient_id = rid, db_filename = hashBytes e content, db_txid = tx,
                         db_vout = stored, db_ack = None,
                         db_sender_amount =
                           (case getSenderAmountParam p of
                              Some amount \<Rightarrow> Some (jsonStringify e amount)
                            | None \<Rightarrow> None) \<rparr>]\<rparr>"
    by auto
  have "getConsignment st' rid =
        getConsignment (st\<lparr>consignments := consignments st @
           [\<lparr> db_recipient_id = rid, db_filename = hashBytes e content, db_txid = tx,
              db_vout = stored, db_ack = None,
              db_sender_amount =
                (case getSenderAmountParam p of
                   Some amount \<Rightarrow> Some (jsonStringify e amount)
                 | None \<Rightarrow> None) \<rparr>]\<rparr>) rid"
    unfolding st' by (simp add: getConsignment_def)
  also have "\<dots> = Some \<lparr> recipientID = rid, filename = hashBytes e content, txid = tx,
                    vout = (if stored = JNull \<or> stored = JUndefined then None else Some stored),
                    ack = None,
                    sender_amount =
                      (case getSenderAmountParam p of
                         Some amount \<Rightarrow> Some (jsonStringify e amount)
                       | None \<Rightarrow> None) \<rparr>"
    using fresh by (simp add: getConsignment_appended)
  finally show ?thesis
    using up tx vo stored fresh st' by simp
qed

lemma updateAck_frame:
  "tempDir (updateAck st n rid) = tempDir st \<and> media (updateAck st n rid) = media st \<and>
   consignmentDir (updateAck st n rid) = consignmentDir st \<and>
   mediaDir (updateAck st n rid) = mediaDir st"
  by (simp add: updateAck_def)

lemma receive_tempDir:
  assumes "receive e m p fl st = (r, st')"
  shows "tempDir st' = tempDir st \<or> (\<exists>f. fl = Some f \<and> tempDir st' = (tempDir st)(f := None))"
proof -
  consider (cpost) "m = ''consignment.post''" | (mpost) "m = ''media.post''"
    | (apost) "m = ''ack.post''"
    | (other) "m \<noteq> ''consignment.post''" "m \<noteq> ''media.post''" "m \<noteq> ''ack.post''"
    by blast
  then show ?thesis
  proof cases
    case cpost
    with assms obtain r0 where "consignment_post e p fl st = (r0, st')"
      by (auto simp: receive_def wrap_eq)
    from consignment_post_tempDir[OF this] show ?thesis
      by (cases fl) simp_all
  next
    case mpost
    with assms obtain r0 where "media_post e p fl st = (r0, st')"
      by (auto simp: receive_def wrap_eq)
    from media_post_tempDir[OF this] show ?thesis
      by (cases fl) simp_all
  next
    case apost
    with assms obtain r0 where "ack_post p st = (r0, st')"
      by (auto simp: receive_def wrap_eq)
    from ack_post_state[OF this] have "tempDir st' = tempDir st"
      by (elim disjE conjE exE) (simp_all add: updateAck_frame)
    then show ?thesis by simp
  next
    case other
    with assms have "st' = st"
      by (auto simp: receive_def wrap_eq split: if_splits)
    then show ?thesis by simp
  qed
qed

lemma json_rpc_tempDir:
  assumes "json_rpc e req st = (Some response, st')"
  shows "tempDir st' =
         (case upload req of None \<Rightarrow> tempDir st | Some (f, content) \<Rightarrow> (tempDir st)(f := None))"
  using assms
proof (cases rule: json_rpc_cases)
  case no_response
  then show ?thesis by simp
next
  case (response resp p st1)
  show ?thesis
  proof (cases "upload req")
    case None
    with receive_tempDir[OF response(2)] response(3) show ?thesis
      by (simp add: deleteUnhandled_state stage_tempDir)
  next
    case (Some a)
    obtain f content where a: "a = (f, content)" by (cases a)
    from receive_tempDir[OF response(2)] Some a
    have "tempDir st1 = (tempDir st)(f \<mapsto> content) \<or> tempDir st1 = (tempDir st)(f := None)"
      by (auto simp: stage_tempDir)
    then have "(tempDir st1)(f := None) = (tempDir st)(f := None)"
      by auto
    with response(3) Some a show ?thesis
      by (simp add: deleteUnhandled_state)
  qed
qed

lemma receive_consignmentDir:
  assumes "receive e m p fl st = (r, st')"
  shows "consignmentDir st' = consignmentDir st \<or>
         (m = ''consignment.post'' \<and>
          (\<exists>f content. fl = Some f \<and> tempDir st f = Some content \<and>
             consignmentDir st' = (consignmentDir st)(hashBytes e content \<mapsto> content)))"
proof -
  consider (cpost) "m = ''consignment.post''" | (mpost) "m = ''media.post''"
    | (apost) "m = ''ack.post''"
    | (other) "m \<noteq> ''consignment.post''" "m \<noteq> ''media.post''" "m \<noteq> ''ack.post''"
    by blast
  then show ?thesis
  proof cases
    case cpost
    with assms obtain r0 where "consignment_post e p fl st = (r0, st')"
      by (auto simp: receive_def wrap_eq)
    from consignment_post_consignmentDir[OF this] cpost show ?thesis
      by blast
  next
    case mpost
    with assms obtain r0 where "media_post e p fl st = (r0, st')"
      by (auto simp: receive_def wrap_eq)
    from media_post_consignments[OF this] show ?thesis
      by simp
  next
    case apost
    with assms obtain r0 where "ack_post p st = (r0, st')"
      by (auto simp: receive_def wrap_eq)
    from ack_post_state[OF this] have "consignmentDir st' = consignmentDir st"
      by (elim disjE conjE exE) (simp_all add: updateAck_frame)
    then show ?thesis by simp
  next
    case other
    with assms have "st' = st"
      by (auto simp: receive_def wrap_eq split: if_splits)
    then show ?thesis by simp
  qed
qed

lemma receive_mediaDir:
  assumes "receive e m p fl st = (r, st')"
  shows "mediaDir st' = mediaDir st \<or>
         (m = ''media.post'' \<and>
          (\<exists>f content. fl = Some f \<and> tempDir st f = Some content \<and>
             mediaDir st' = (mediaDir st)(hashBytes e content \<mapsto> content)))"
proof -
  consider (cpost) "m = ''consignment.post''" | (mpost) "m = ''media.post''"
    | (apost) "m = ''ack.post''"
    | (other) "m \<noteq> ''consignment.post''" "m \<noteq> ''media.post''" "m \<noteq> ''ack.post''"
    by blast
  then show ?thesis
  proof cases
    case cpost
    with assms obtain r0 where "consignment_post e p fl st = (r0, st')"
      by (auto simp: receive_def wrap_eq)
    from consignment_post_media[OF this] show ?thesis
      by simp
  next
    case mpost
    with assms obtain r0 where "media_post e p fl st = (r0, st')"
      by (auto simp: receive_def wrap_eq)
    from media_post_mediaDir[OF this] mpost show ?thesis
      by blast
  next
    case apost
    with assms obtain r0 where "ack_post p st = (r0, st')"
      by (auto simp: receive_def wrap_eq)
    from ack_post_state[OF this] have "mediaDir st' = mediaDir st"
      by (elim disjE conjE exE) (simp_all add: updateAck_frame)
    then show ?thesis by simp
  next
    case other
    with assms have "st' = st"
      by (auto simp: receive_def wrap_eq split: if_splits)
    then show ?thesis by simp
  qed
qed

lemma deleteUnhandled_dirs:
  "consignmentDir (deleteUnhandled fl st) = consignmentDir st \<and>
   mediaDir (deleteUnhandled fl st) = mediaDir st \<and> media (deleteUnhandled fl st) = media st"
  by (simp add: deleteUnhandled_state split: option.splits)

lemma staged_content:
  "map_option fst (upload req) = Some f \<Longrightarrow> tempDir (stage req st) f = Some content \<Longrightarrow>
   upload req = Some (f, content)"
  by (cases "upload req") (auto simp: stage_tempDir)

lemma json_rpc_consignmentDir:
  assumes "json_rpc e req st = (r, st')"
  shows "consignmentDir st' = consignmentDir st \<or>
         (rpc_method req = ''consignment.post'' \<and>
          (\<exists>f content. upload req = Some (f, content) \<and>
             consignmentDir st' = (consignmentDir st)(hashBytes e content \<mapsto> content)))"
  using assms
proof (cases rule: json_rpc_cases)
  case no_response
  then show ?thesis by (simp add: stage_frame)
next
  case (response resp p st1)
  from receive_consignmentDir[OF response(2)] show ?thesis
  proof (elim disjE conjE exE)
    assume "consignmentDir st1 = consignmentDir (stage req st)"
    with response(3) show ?thesis
      by (simp add: deleteUnhandled_dirs stage_frame)
  next
    fix f content
    assume m: "rpc_method req = ''consignment.post''"
      and f: "map_option fst (upload req) = Some f"
      and c: "tempDir (stage req st) f = Some content"
      and d: "consignmentDir st1 =
              (consignmentDir (stage req st))(hashBytes e content \<mapsto> content)"
    from staged_content[OF f c] have "upload req = Some (f, content)" .
    with m d response(3) show ?thesis
      by (simp add: deleteUnhandled_dirs stage_frame)
  qed
qed

lemma json_rpc_mediaDir:
  assumes "json_rpc e req st = (r, st')"
  shows "mediaDir st' = mediaDir st \<or>
         (rpc_method req = ''media.post'' \<and>
          (\<exists>f content. upload req = Some (f, content) \<and>
             mediaDir st' = (mediaDir st)(hashBytes e content \<mapsto> content)))"
  using assms
proof (cases rule: json_rpc_cases)
  case no_response
  then show ?thesis by (simp add: stage_frame)
next
  case (response resp p st1)
  from receive_mediaDir[OF response(2)] show ?thesis
  proof (elim disjE conjE exE)
    assume "mediaDir st1 = mediaDir (stage req st)"
    with response(3) show ?thesis
      by (simp add: deleteUnhandled_dirs stage_frame)
  next
    fix f content
    assume m: "rpc_method req = ''media.post''"
      and f: "map_option fst (upload req) = Some f"
      and c: "tempDir (stage req st) f = Some content"
      and d: "mediaDir st1 = (mediaDir (stage req st))(hashBytes e content \<mapsto> content)"
    from staged_content[OF f c] have "upload req = Some (f, content)" .
    with m d response(3) show ?thesis
      by (simp add: deleteUnhandled_dirs stage_frame)
  qed
qed


lemma serve_keeps_file:
  "consignmentDir st h = Some content \<Longrightarrow>
   \<forall>r \<in> set reqs. rpc_method r = ''consignment.post'' \<longrightarrow>
     (\<forall>f' content'. upload r = Some (f', content') \<longrightarrow> hashBytes e content' = h \<longrightarrow>
        content' = content) \<Longrightarrow>
   consignmentDir (serve e reqs st) h = Some content"
proof (induction reqs arbitrary: st)
  case Nil
  then show ?case by simp
next
  case (Cons req reqs)
  obtain r st' where step: "json_rpc e req st = (r, st')"
    by (cases "json_rpc e req st")
  from Cons.prems(2)
  have here: "rpc_method req = ''consignment.post'' \<longrightarrow>
     (\<forall>f' content'. upload req = Some (f', content') \<longrightarrow> hashBytes e content' = h \<longrightarrow>
        content' = content)"
    and rest: "\<forall>r \<in> set reqs. rpc_method r = ''consignment.post'' \<longrightarrow>
     (\<forall>f' content'. upload r = Some (f', content') \<longrightarrow> hashBytes e content' = h \<longrightarrow>
        content' = content)"
    by simp_all
  from json_rpc_consignmentDir[OF step] have "consignmentDir st' h = Some content"
  proof (elim disjE conjE exE)
    assume "consignmentDir st' = consignmentDir st"
    with Cons.prems(1) show ?thesis by simp
  next
    fix f' content'
    assume "rpc_method req = ''consignment.post''" and "upload req = Some (f', content')"
      and d: "consignmentDir st' = (consignmentDir st)(hashBytes e content' \<mapsto> content')"
    with here have "hashBytes e content' = h \<longrightarrow> content' = content"
      by blast
    with d Cons.prems(1) show ?thesis by auto
  qed
  from Cons.IH[OF this rest] step show ?case by simp
qed

lemma consignment_post_try_False:
  assumes "consignment_post_try e p f st = (Inr False, st')"
  shows "\<exists>content rid c.
           tempDir st f = Some content \<and> getRecipientIDParam p = Inr rid \<and>
           getConsignment st rid = Some c \<and> filename c = hashBytes e content \<and>
           st' = st\<lparr>tempDir := (tempDir st)(f := None)\<rparr>"
  using assms
  by (auto simp: consignment_post_try_def fs_defs insertConsignment_def Let_def
      split: sum.splits option.splits if_splits)

lemma media_post_try_False:
  assumes "media_post_try e p fl st = (Inr False, st')"
  shows "\<exists>f content aid m.
           fl = Some f \<and> tempDir st f = Some content \<and> getAttachmentIDParam p = Inr aid \<and>
           getMedia st aid = Some m \<and> media_filename m = hashBytes e content \<and>
           st' = st\<lparr>tempDir := (tempDir st)(f := None)\<rparr>"
  using assms
  by (auto simp: media_post_try_def fs_defs insertMedia_def
      split: sum.splits option.splits if_splits)

lemma consignment_post_Inr:
  assumes "consignment_post e p fl st = (Inr b, st')"
  shows "\<exists>f. fl = Some f \<and> consignment_post_try e p f st = (Inr b, st')"
  using assms
  by (cases fl)
    (auto simp: consignment_post_def split: prod.splits sum.splits dest: removeUnhandled_state)

lemma media_post_Inr:
  assumes "media_post e p fl st = (Inr b, st')"
  shows "media_post_try e p fl st = (Inr b, st')"
  using assms
  by (auto simp: media_post_def split: prod.splits sum.splits option.splits
      dest: removeUnhandled_state)

lemma getMedia_appended:
  assumes "getMedia st aid = None"
  shows "getMedia (st\<lparr>media := media st @ [row]\<rparr>) aid' =
         (if aid' = attachment_id row \<and> getMedia st aid' = None then Some row
          else getMedia st aid')"
  by (auto simp: getMedia_def find_append split: option.splits)

lemma consignment_post_try_names_digest:
  assumes "consignment_post_try e p f st = (Inr b, st')"
  shows "\<exists>content rid c.
           tempDir st f = Some content \<and> getRecipientIDParam p = Inr rid \<and>
           getConsignment st' rid = Some c \<and> filename c = hashBytes e content \<and>
           (b \<longrightarrow> consignmentDir st' (hashBytes e content) = Some content)"
proof (cases b)
  case True
  with consignment_post_try_True[of e p f st st'] assms
  obtain content rid row where "tempDir st f = Some content" "getRecipientIDParam p = Inr rid"
    and fresh: "getConsignment st rid = None"
    and st': "st' = st\<lparr>tempDir := (tempDir st)(f := None),
                    consignmentDir := (consignmentDir st)(hashBytes e content \<mapsto> content),
                    consignments := consignments st @ [row]\<rparr>"
    and row: "db_recipient_id row = rid" "db_filename row = hashBytes e content"
    by auto
  moreover have "getConsignment st' rid =
     getConsignment (st\<lparr>consignments := consignments st @ [row]\<rparr>) rid"
    unfolding st' by (simp add: getConsignment_def)
  then have "\<exists>c. getConsignment st' rid = Some c \<and> filename c = hashBytes e content"
    using fresh row by (simp add: getConsignment_appended)
  moreover have "consignmentDir st' (hashBytes e content) = Some content"
    unfolding st' by simp
  ultimately show ?thesis by blast
next
  case False
  with consignment_post_try_False[of e p f st st'] assms
  obtain content rid c where "tempDir st f = Some content" "getRecipientIDParam p = Inr rid"
    "getConsignment st rid = Some c" "filename c = hashBytes e content"
    "st' = st\<lparr>tempDir := (tempDir st)(f := None)\<rparr>"
    by auto
  with False show ?thesis
    by (simp add: getConsignment_other_fields)
qed

lemma media_post_try_names_digest:
  assumes "media_post_try e p fl st = (Inr b, st')"
  shows "\<exists>f content aid m.
           fl = Some f \<and> tempDir st f = Some content \<and> getAttachmentIDParam p = Inr aid \<and>
           getMedia st' aid = Some m \<and> media_filename m = hashBytes e content \<and>
           (b \<longrightarrow> mediaDir st' (hashBytes e content) = Some content)"
proof (cases b)
  case True
  with media_post_try_True[of e p fl st st'] assms
  obtain f content aid where "fl = Some f" "tempDir st f = Some content"
    "getAttachmentIDParam p = Inr aid"
    and fresh: "getMedia st aid = None"
    and st': "st' = st\<lparr>tempDir := (tempDir st)(f := None),
                    mediaDir := (mediaDir st)(hashBytes e content \<mapsto> content),
                    media := media st @
                      [\<lparr> attachment_id = aid, media_filename = hashBytes e content \<rparr>]\<rparr>"
    by auto
  moreover have "getMedia st' aid =
     getMedia (st\<lparr>media := media st @
        [\<lparr> attachment_id = aid, media_filename = hashBytes e content \<rparr>]\<rparr>) aid"
    unfolding st' by (simp add: getMedia_def)
  then have "\<exists>m. getMedia st' aid = Some m \<and> media_filename m = hashBytes e content"
    using fresh by (simp add: getMedia_appended)
  moreover have "mediaDir st' (hashBytes e content) = Some content"
    unfolding st' by simp
  ultimately show ?thesis by blast
next
  case False
  with media_post_try_False[of e p fl st st'] assms
  obtain f content aid m where "fl = Some f" "tempDir st f = Some content"
    "getAttachmentIDParam p = Inr aid" "getMedia st aid = Some m"
    "media_filename m = hashBytes e content"
    "st' = st\<lparr>tempDir := (tempDir st)(f := None)\<rparr>"
    by auto
  with False show ?thesis
    by (simp add: getMedia_other_fields)
qed


lemma receive_Inr_ResBool:
  assumes "receive e m p fl st = (Inr (ResBool b), st')"
  shows "(m = ''consignment.post'' \<longrightarrow> consignment_post e p fl st = (Inr b, st')) \<and>
         (m = ''media.post'' \<longrightarrow> media_post e p fl st = (Inr b, st'))"
proof (intro conjI impI)
  assume "m = ''consignment.post''"
  with assms obtain r0 where r0: "consignment_post e p fl st = (r0, st')"
    and r: "Inr (ResBool b) = (case r0 of Inl err \<Rightarrow> Inl err | Inr v \<Rightarrow> Inr (ResBool v))"
    by (auto simp: receive_def wrap_eq)
  from r have "r0 = Inr b" by (cases r0) auto
  with r0 show "consignment_post e p fl st = (Inr b, st')" by simp
next
  assume "m = ''media.post''"
  with assms obtain r0 where r0: "media_post e p fl st = (r0, st')"
    and r: "Inr (ResBool b) = (case r0 of Inl err \<Rightarrow> Inl err | Inr v \<Rightarrow> Inr (ResBool v))"
    by (auto simp: receive_def wrap_eq)
  from r have "r0 = Inr b" by (cases r0) auto
  with r0 show "media_post e p fl st = (Inr b, st')" by simp
qed

lemma json_rpc_post_names_digest:
  assumes "json_rpc e req st = (Some (Inr (ResBool b)), st')"
    and m: "rpc_method req = ''consignment.post''"
    and p: "parseParams e (rpc_params req) = Some p"
    and up: "upload req = Some (f, content)"
    and rid: "getRecipientIDParam p = Inr rid"
  shows "(\<exists>c. getConsignment st' rid = Some c \<and> filename c = hashBytes e content) \<and>
         (b \<longrightarrow> consignmentDir st' (hashBytes e content) = Some content)"
  using assms(1)
proof (cases rule: json_rpc_cases)
  case no_response
  then show ?thesis by simp
next
  case (response resp p' st1)
  with p have same: "p' = p" and resp: "resp = Inr (ResBool b)" by simp_all
  from response(2) m up have
    "receive e ''consignment.post'' p (Some f) (stage req st) = (Inr (ResBool b), st1)"
    unfolding same resp by simp
  from receive_Inr_ResBool[OF this]
  have "consignment_post e p (Some f) (stage req st) = (Inr b, st1)" by simp
  from consignment_post_Inr[OF this]
  have "consignment_post_try e p f (stage req st) = (Inr b, st1)" by simp
  from consignment_post_try_names_digest[OF this] rid
  obtain content' c where staged: "tempDir (stage req st) f = Some content'"
    and c: "getConsignment st1 rid = Some c" "filename c = hashBytes e content'"
    and d: "b \<longrightarrow> consignmentDir st1 (hashBytes e content') = Some content'"
    by auto
  from staged up have "content' = content"
    by (simp add: stage_tempDir)
  with c d response(3) show ?thesis
    by (simp add: getConsignment_deleteUnhandled deleteUnhandled_dirs)
qed

lemma getMedia_deleteUnhandled:
  "getMedia (deleteUnhandled fl st) aid = getMedia st aid"
  by (simp add: getMedia_def deleteUnhandled_dirs)

lemma json_rpc_media_names_digest:
  assumes "json_rpc e req st = (Some (Inr (ResBool b)), st')"
    and m: "rpc_method req = ''media.post''"
    and p: "parseParams e (rpc_params req) = Some p"
    and up: "upload req = Some (f, content)"
    and aid: "getAttachmentIDParam p = Inr aid"
  shows "(\<exists>m. getMedia st' aid = Some m \<and> media_filename m = hashBytes e content) \<and>
         (b \<longrightarrow> mediaDir st' (hashBytes e content) = Some content)"
  using assms(1)
proof (cases rule: json_rpc_cases)
  case no_response
  then show ?thesis by simp
next
  case (response resp p' st1)
  with p have same: "p' = p" and resp: "resp = Inr (ResBool b)" by simp_all
  from response(2) m up have
    "receive e ''media.post'' p (Some f) (stage req st) = (Inr (ResBool b), st1)"
    unfolding same resp by simp
  from receive_Inr_ResBool[OF this]
  have "media_post e p (Some f) (stage req st) = (Inr b, st1)" by simp
  from media_post_Inr[OF this]
  have "media_post_try e p (Some f) (stage req st) = (Inr b, st1)" .
  from media_post_try_names_digest[OF this] aid
  obtain content' md where staged: "tempDir (stage req st) f = Some content'"
    and c: "getMedia st1 aid = Some md" "media_filename md = hashBytes e content'"
    and d: "b \<longrightarrow> mediaDir st1 (hashBytes e content') = Some content'"
    by auto
  from staged up have "content' = content"
    by (simp add: stage_tempDir)
  with c d response(3) show ?thesis
    by (simp add: getMedia_deleteUnhandled deleteUnhandled_dirs)
qed

lemma content_addressed_update:
  "content_addressed e dir \<Longrightarrow> content_addressed e (dir(hashBytes e content \<mapsto> content))"
  by (simp add: content_addressed_def)

lemma json_rpc_content_addressed:
  assumes "json_rpc e req st = (r, st')"
    and "content_addressed e (consignmentDir st)" and "content_addressed e (mediaDir st)"
  shows "content_addressed e (consignmentDir st') \<and> content_addressed e (mediaDir st')"
  using json_rpc_consignmentDir[OF assms(1)] json_rpc_mediaDir[OF assms(1)] assms(2,3)
  by (auto simp: content_addressed_update)

lemma serve_content_addressed:
  "content_addressed e (consignmentDir st) \<Longrightarrow> content_addressed e (mediaDir st) \<Longrightarrow>
   content_addressed e (consignmentDir (serve e reqs st)) \<and>
   content_addressed e (mediaDir (serve e reqs st))"
proof (induction reqs arbitrary: st)
  case Nil
  then show ?case by simp
next
  case (Cons req reqs)
  obtain r st' where step: "json_rpc e req st = (r, st')"
    by (cases "json_rpc e req st")
  from json_rpc_content_addressed[OF step Cons.prems]
  have "content_addressed e (consignmentDir st')" "content_addressed e (mediaDir st')"
    by simp_all
  from Cons.IH[OF this] step show ?case by simp
qed


lemma receive_media:
  assumes "receive e m p fl st = (r, st')"
  shows "media st' = media st \<or>
         (m = ''media.post'' \<and> r = Inr (ResBool True) \<and>
            media_post_try e p fl st = (Inr True, st'))"
proof -
  consider (cpost) "m = ''consignment.post''" | (mpost) "m = ''media.post''"
    | (apost) "m = ''ack.post''"
    | (other) "m \<noteq> ''consignment.post''" "m \<noteq> ''media.post''" "m \<noteq> ''ack.post''"
    by blast
  then show ?thesis
  proof cases
    case cpost
    with assms obtain r0 where "consignment_post e p fl st = (r0, st')"
      by (auto simp: receive_def wrap_eq)
    from consignment_post_media[OF this] show ?thesis by simp
  next
    case mpost
    with assms obtain r0 where r0: "media_post e p fl st = (r0, st')"
      and r: "r = (case r0 of Inl err \<Rightarrow> Inl err | Inr v \<Rightarrow> Inr (ResBool v))"
      by (auto simp: receive_def wrap_eq)
    show ?thesis
    proof (cases "r0 = Inr True")
      case True
      with r0 r mpost show ?thesis
        by (auto dest: media_post_True)
    next
      case False
      with r0 show ?thesis
        by (auto dest: media_post_other)
    qed
  next
    case apost
    with assms obtain r0 where "ack_post p st = (r0, st')"
      by (auto simp: receive_def wrap_eq)
    from ack_post_state[OF this] have "media st' = media st"
      by (elim disjE conjE exE) (simp_all add: updateAck_frame)
    then show ?thesis by simp
  next
    case other
    with assms have "st' = st"
      by (auto simp: receive_def wrap_eq split: if_splits)
    then show ?thesis by simp
  qed
qed

lemma updateAck_keys:
  "map db_recipient_id (consignments (updateAck st n rid)) = map db_recipient_id (consignments st)"
  by (simp add: updateAck_def comp_def cong: map_cong)

lemma json_rpc_unique_keys:
  assumes "json_rpc e req st = (r, st')"
    and c: "distinct (map db_recipient_id (consignments st))"
    and m: "distinct (map attachment_id (media st))"
  shows "distinct (map db_recipient_id (consignments st')) \<and>
         distinct (map attachment_id (media st'))"
  using assms(1)
proof (cases rule: json_rpc_cases)
  case no_response
  with c m show ?thesis by (simp add: stage_frame)
next
  case (response resp p st1)
  let ?st0 = "stage req st"
  have final: "consignments st' = consignments st1" "media st' = media st1"
    using response(3) by (simp_all add: deleteUnhandled_consignments deleteUnhandled_dirs)
  have "distinct (map db_recipient_id (consignments st1))"
    using receive_consignments[OF response(2)]
  proof (elim disjE conjE exE)
    assume "consignments st1 = consignments ?st0"
    with c show ?thesis by (simp add: stage_frame)
  next
    fix f
    assume "consignment_post_try e p f ?st0 = (Inr True, st1)"
    from consignment_post_try_True[OF this] obtain rid row where
      "getConsignment ?st0 rid = None" "db_recipient_id row = rid"
      "consignments st1 = consignments ?st0 @ [row]"
      by fastforce
    with c show ?thesis
      by (simp add: getConsignment_None_iff stage_frame)
  next
    fix c' a
    assume "st1 = updateAck ?st0 (if a then 1 else 0) (recipientID c')"
    with c show ?thesis
      by (simp add: updateAck_keys stage_frame)
  qed
  moreover have "distinct (map attachment_id (media st1))"
    using receive_media[OF response(2)]
  proof (elim disjE conjE)
    assume "media st1 = media ?st0"
    with m show ?thesis by (simp add: stage_frame)
  next
    assume "media_post_try e p (map_option fst (upload req)) ?st0 = (Inr True, st1)"
    from media_post_try_True[OF this] obtain aid row where
      "getMedia ?st0 aid = None" "attachment_id row = aid"
      "media st1 = media ?st0 @ [row]"
      by fastforce
    with m show ?thesis
      by (simp add: getMedia_None_iff stage_frame)
  qed
  ultimately show ?thesis
    using final by simp
qed

lemma json_rpc_other_record:
  assumes "json_rpc e req st = (r, st')" and c: "getConsignment st rid = Some c"
    and other: "\<not> acknowledges e rid req"
  shows "getConsignment st' rid = Some c"
  using assms(1)
proof (cases rule: json_rpc_cases)
  case no_response
  with c show ?thesis by (simp add: getConsignment_stage)
next
  case (response resp p st1)
  let ?st0 = "stage req st"
  have c0: "getConsignment ?st0 rid = Some c"
    using c by (simp add: getConsignment_stage)
  have final: "getConsignment st' rid = getConsignment st1 rid"
    using response(3) by (simp add: getConsignment_deleteUnhandled)
  from receive_consignments[OF response(2)] show ?thesis
  proof (elim disjE conjE exE)
    assume "consignments st1 = consignments ?st0"
    from getConsignment_cong[OF this, of rid] have "getConsignment st1 rid = Some c"
      using c0 by simp
    with final show ?thesis by simp
  next
    fix f
    assume "consignment_post_try e p f ?st0 = (Inr True, st1)"
    from consignment_post_try_True[OF this] obtain row where
      "consignments st1 = consignments ?st0 @ [row]"
      by auto
    then have "getConsignment st1 rid = Some c"
      using c0 by (rule getConsignment_append)
    with final show ?thesis by simp
  next
    fix c' a
    assume m: "rpc_method req = ''ack.post''"
      and c': "getConsignmentOrFail ?st0 p = Inr c'"
      and st1: "st1 = updateAck ?st0 (if a then 1 else 0) (recipientID c')"
    from c' obtain rid' where p: "getRecipientIDParam p = Inr rid'"
      and rid': "getConsignment ?st0 rid' = Some c'"
      by (auto simp: getConsignmentOrFail_def split: sum.splits option.splits)
    from rid' have same: "recipientID c' = rid'"
      by (rule getConsignment_recipientID)
    from other m response(4) p have "rid' \<noteq> rid"
      by (auto simp: acknowledges_def)
    with st1 same c0 have "getConsignment st1 rid = Some c"
      by (simp add: getConsignment_updateAck)
    with final show ?thesis by simp
  qed
qed

lemma serve_other_records:
  "getConsignment st rid = Some c \<Longrightarrow> \<forall>r \<in> set reqs. \<not> acknowledges e rid r \<Longrightarrow>
   getConsignment (serve e reqs st) rid = Some c"
proof (induction reqs arbitrary: st)
  case Nil
  then show ?case by simp
next
  case (Cons req reqs)
  obtain r st' where step: "json_rpc e req st = (r, st')"
    by (cases "json_rpc e req st")
  from Cons.prems(2) have here: "\<not> acknowledges e rid req"
    and rest: "\<forall>r \<in> set reqs. \<not> acknowledges e rid r"
    by simp_all
  from json_rpc_other_record[OF step Cons.prems(1) here]
  have "getConsignment st' rid = Some c" .
  from Cons.IH[OF this rest] step show ?case by simp
qed

section \<open>The scenario, evaluated\<close>

lemmas param_defs = getRecipientIDParam_def getTxidParam_def getVoutParam_def
  getSenderAmountParam_def getAckParam_def getAttachmentIDParam_def isDictionary_def
  isString_def isBoolean_def truthy_def property_def isNumber_def toNumber_def

lemmas example_defs = example_env_def blindTest_params_def blindTest_row_def posted_def
  blindTest_consignment_def ack_params_def acked_def initial_def media_params_def
  with_media_def recipient_params_def payee_params_def payee_ack_request_def

lemma blindTest_posted:
  "json_rpc example_env (post_request blindTest_params ''upload-1'' ''X'') initial =
   (Some (Inr (ResBool True)), posted)"
  by (simp add: post_request_def json_rpc_def parseParams_def stage_def receive_def wrap_def
      consignment_post_def consignment_post_try_def param_defs fs_defs getConsignment_def
      insertConsignment_def deleteUnhandled_def example_defs Let_def)

lemma blindTest_acked:
  "json_rpc example_env (ack_request True) posted = (Some (Inr (ResBool True)), acked)"
  by (simp add: ack_request_def json_rpc_def parseParams_def stage_def receive_def wrap_def
      ack_post_def getConsignmentOrFail_def getConsignment_def updateAck_def param_defs
      deleteUnhandled_def example_defs)

lemma blindTest_nacked_refused:
  "json_rpc example_env (ack_request False) acked =
   (Some (Inl (CannotChangeAck (ack_params False))), acked)"
  by (simp add: ack_request_def json_rpc_def parseParams_def stage_def receive_def wrap_def
      ack_post_def getConsignmentOrFail_def getConsignment_def updateAck_def param_defs
      deleteUnhandled_def example_defs)

lemma blindTest_records:
  "getConsignment initial ''blindTest'' = None"
  "getConsignment posted ''blindTest'' = Some blindTest_consignment"
  "getConsignment acked ''blindTest'' = Some (blindTest_consignment\<lparr>ack := Some True\<rparr>)"
  by (simp_all add: getConsignment_def example_defs)

lemma invalid_post_answered:
  "json_rpc example_env (post_request (JObj []) ''upload-1'' ''X'') initial =
   (Some (Inl (MissingRecipientID (JObj []))), initial)"
  by (simp add: post_request_def json_rpc_def parseParams_def stage_def receive_def wrap_def
      consignment_post_def consignment_post_try_def removeUnhandled_def param_defs fs_defs
      deleteUnhandled_def example_defs)

lemma payee_params_valid:
  "getRecipientIDParam payee_params = Inr ''payee''"
  "getTxidParam payee_params = Inr ''t2''"
  "getVoutParam example_env payee_params = Inr (Some (JNum (Fin 1)))"
  "getSenderAmountParam payee_params = Some (JObj [])"
  by (simp_all add: param_defs example_defs)

lemma media_posted:
  "json_rpc example_env (media_request media_params ''upload-2'' ''X'') posted =
   (Some (Inr (ResBool True)), with_media)"
  by (simp add: media_request_def json_rpc_def parseParams_def stage_def receive_def wrap_def
      media_post_def media_post_try_def param_defs fs_defs getMedia_def insertMedia_def
      deleteUnhandled_def example_defs)

lemma blindTest_got:
  "json_rpc example_env (get_request ''consignment.get'') posted =
   (Some (Inr (ResConsignment
      \<lparr> res_consignment = ''WA=='', res_txid = ''t1'', res_vout = None,
        res_sender_amount = None \<rparr>)), posted)"
  by (simp add: get_request_def json_rpc_def parseParams_def stage_def receive_def wrap_def
      consignment_get_def getConsignmentOrFail_def getConsignment_def param_defs
      deleteUnhandled_def example_defs sextet_def base64Alphabet_def)

lemma blindTest_ack_read:
  "json_rpc example_env (get_request ''ack.get'') acked = (Some (Inr (ResAck (Some True))), acked)"
  by (simp add: get_request_def json_rpc_def parseParams_def stage_def receive_def wrap_def
      ack_get_def getConsignmentOrFail_def getConsignment_def param_defs
      deleteUnhandled_def example_defs)

lemma blindTest_acked_again:
  "json_rpc example_env (ack_request True) acked = (Some (Inr (ResBool False)), acked)"
  by (simp add: ack_request_def json_rpc_def parseParams_def stage_def receive_def wrap_def
      ack_post_def getConsignmentOrFail_def getConsignment_def updateAck_def param_defs
      deleteUnhandled_def example_defs)

section \<open>Parameters\<close>




section \<open>Uploads\<close>






text \<open>
  C9 fails on the route. A \<open>consignment.post\<close> (or \<open>media.post\<close>) request
  carries a file and parameters sent as a string that is not JSON. The upload middleware
  stages the file, \<open>JSON.parse\<close> throws in the callback before the server is
  called, and neither the handler's \<open>catch\<close> block nor the removal after the
  response runs: no response is produced and the staged file stays in the staging
  directory.
\<close>

theorem unparsable_params_leave_staged_file:
  "jsonParse example_env ''{'' = None \<and>
   json_rpc example_env (post_request (JStr ''{'') ''upload-1'' ''X'') initial =
     (None, initial\<lparr>tempDir := [''upload-1'' \<mapsto> ''X'']\<rparr>) \<and>
   tempDir (snd (json_rpc example_env (post_request (JStr ''{'') ''upload-1'' ''X'') initial))
     ''upload-1'' = Some ''X'' \<and>
   json_rpc example_env (media_request (JStr ''{'') ''upload-1'' ''X'') initial =
     (None, initial\<lparr>tempDir := [''upload-1'' \<mapsto> ''X'']\<rparr>) \<and>
   tempDir (snd (json_rpc example_env (media_request (JStr ''{'') ''upload-1'' ''X'') initial))
     ''upload-1'' = Some ''X''"
  by (simp add: post_request_def media_request_def json_rpc_def parseParams_def stage_def
      example_env_def initial_def)

text \<open>
  C5. Let a \<open>consignment.post\<close> with file content \<open>P\<close>, txid \<open>t\<close>,
  optional \<open>vout\<close> and optional \<open>sender_amount\<close> return true for a
  recipient id, and let any requests follow among which no \<open>consignment.post\<close>
  uploads other bytes with the digest of \<open>P\<close>. Then \<open>consignment.get\<close> for
  that recipient id returns the base64 text of \<open>P\<close>, which decodes to \<open>P\<close>,
  the txid \<open>t\<close>, the \<open>vout\<close> as the database stored it, and the sender
  amount (given that \<open>JSON.parse\<close> inverts \<open>JSON.stringify\<close> on it). For a
  recipient id without a record it fails with NotFoundConsignment.
\<close>

theorem consignment_get_returns_upload:
  "(json_rpc e req st = (Some (Inr (ResBool True)), st1) \<and>
    rpc_method req = ''consignment.post'' \<and> parseParams e (rpc_params req) = Some p \<and>
    upload req = Some (f, content) \<and> getRecipientIDParam p = Inr rid \<and>
    getTxidParam p = Inr tx \<and> getVoutParam e p = Inr vo \<and>
    (case vo of None \<Rightarrow> Some JNull | Some v \<Rightarrow> bindInteger e v) = Some stored \<and>
    (\<forall>amount. getSenderAmountParam p = Some amount \<longrightarrow>
       jsonStringify e amount \<noteq> [] \<and> jsonParse e (jsonStringify e amount) = Some amount) \<and>
    (\<forall>r \<in> set reqs. rpc_method r = ''consignment.post'' \<longrightarrow>
       (\<forall>f' content'. upload r = Some (f', content') \<longrightarrow>
          hashBytes e content' = hashBytes e content \<longrightarrow> content' = content)) \<and>
    getRecipientIDParam q = Inr rid \<longrightarrow>
      consignment_get e (serve e reqs st1) q =
        Inr \<lparr> res_consignment = toBase64 content, res_txid = tx,
              res_vout = (if stored = JNull \<or> stored = JUndefined then None else Some stored),
              res_sender_amount = getSenderAmountParam p \<rparr> \<and>
      fromBase64 (toBase64 content) = Some content) \<and>
   (getRecipientIDParam q = Inr rid \<and> getConsignment st rid = None \<longrightarrow>
      consignment_get e st q = Inl (NotFoundConsignment q))"
proof (intro conjI impI)
  assume a: "json_rpc e req st = (Some (Inr (ResBool True)), st1) \<and>
    rpc_method req = ''consignment.post'' \<and> parseParams e (rpc_params req) = Some p \<and>
    upload req = Some (f, content) \<and> getRecipientIDParam p = Inr rid \<and>
    getTxidParam p = Inr tx \<and> getVoutParam e p = Inr vo \<and>
    (case vo of None \<Rightarrow> Some JNull | Some v \<Rightarrow> bindInteger e v) = Some stored \<and>
    (\<forall>amount. getSenderAmountParam p = Some amount \<longrightarrow>
       jsonStringify e amount \<noteq> [] \<and> jsonParse e (jsonStringify e amount) = Some amount) \<and>
    (\<forall>r \<in> set reqs. rpc_method r = ''consignment.post'' \<longrightarrow>
       (\<forall>f' content'. upload r = Some (f', content') \<longrightarrow>
          hashBytes e content' = hashBytes e content \<longrightarrow> content' = content)) \<and>
    getRecipientIDParam q = Inr rid"
  let ?c = "\<lparr> recipientID = rid, filename = hashBytes e content, txid = tx,
               vout = (if stored = JNull \<or> stored = JUndefined then None else Some stored),
               ack = None,
               sender_amount =
                 (case getSenderAmountParam p of
                    Some amount \<Rightarrow> Some (jsonStringify e amount)
                  | None \<Rightarrow> None) \<rparr>"
  from a json_rpc_post_True_record[of e req st st1 p rid]
  have dir: "consignmentDir st1 = (consignmentDir st)(hashBytes e content \<mapsto> content)"
    and rec: "getConsignment st1 rid = Some ?c"
    by auto
  from serve_record[OF rec] obtain ak where
    rec': "getConsignment (serve e reqs st1) rid = Some (?c\<lparr>ack := ak\<rparr>)"
    by blast
  from dir have "consignmentDir st1 (hashBytes e content) = Some content"
    by simp
  from serve_keeps_file[OF this, of reqs e] a
  have kept: "consignmentDir (serve e reqs st1) (hashBytes e content) = Some content"
    by blast
  from a have amount: "getSenderAmountParam p = Some amount \<Longrightarrow>
       jsonStringify e amount \<noteq> [] \<and> jsonParse e (jsonStringify e amount) = Some amount"
    for amount
    by blast
  show "consignment_get e (serve e reqs st1) q =
        Inr \<lparr> res_consignment = toBase64 content, res_txid = tx,
              res_vout = (if stored = JNull \<or> stored = JUndefined then None else Some stored),
              res_sender_amount = getSenderAmountParam p \<rparr>"
  proof (cases "getSenderAmountParam p")
    case None
    with a rec' kept show ?thesis
      by (simp add: consignment_get_def getConsignmentOrFail_def)
  next
    case (Some amount)
    with a rec' kept amount[OF Some] show ?thesis
      by (simp add: consignment_get_def getConsignmentOrFail_def)
  qed
  show "fromBase64 (toBase64 content) = Some content"
    by (rule fromBase64_toBase64)
next
  assume "getRecipientIDParam q = Inr rid \<and> getConsignment st rid = None"
  then show "consignment_get e st q = Inl (NotFoundConsignment q)"
    by (simp add: consignment_get_def getConsignmentOrFail_def)
qed


theorem consignment_get_returns_upload_witness:
  "\<exists>st1. json_rpc example_env (post_request payee_params ''upload-2'' ''Z'') posted =
            (Some (Inr (ResBool True)), st1) \<and>
          consignment_get example_env
            (serve example_env
               [post_request blindTest_params ''upload-3'' ''X'', ack_request True] st1)
            (recipient_params ''payee'') =
            Inr \<lparr> res_consignment = ''Wg=='', res_txid = ''t2'',
                  res_vout = Some (JNum (Fin 1)), res_sender_amount = Some (JObj []) \<rparr> \<and>
          fromBase64 ''Wg=='' = Some ''Z'' \<and>
          consignment_get example_env posted (recipient_params ''payee'') =
            Inl (NotFoundConsignment (recipient_params ''payee''))"
proof -
  let ?req = "post_request payee_params ''upload-2'' ''Z''"
  have bound: "(case Some (JNum (Fin 1)) of None \<Rightarrow> Some JNull
                | Some v \<Rightarrow> bindInteger example_env v) = Some (JNum (Fin 1))"
    by (simp add: example_env_def)
  have fresh: "getConsignment posted ''payee'' = None"
    by (simp add: getConsignment_def example_defs)
  from json_rpc_post_fresh[OF payee_params_valid(1,2,3) bound fresh, of "''upload-2''" "''Z''"]
  obtain st1 where st1: "json_rpc example_env ?req posted = (Some (Inr (ResBool True)), st1)"
    by (simp add: post_request_def)
  have req: "rpc_method ?req = ''consignment.post''"
    "parseParams example_env (rpc_params ?req) = Some payee_params"
    "upload ?req = Some (''upload-2'', ''Z'')"
    by (simp_all add: post_request_def parseParams_def example_defs)
  have blob: "\<forall>amount. getSenderAmountParam payee_params = Some amount \<longrightarrow>
       jsonStringify example_env amount \<noteq> [] \<and>
       jsonParse example_env (jsonStringify example_env amount) = Some amount"
    by (simp add: payee_params_valid(4) example_env_def)
  have later: "\<forall>r \<in> set [post_request blindTest_params ''upload-3'' ''X'', ack_request True].
       rpc_method r = ''consignment.post'' \<longrightarrow>
       (\<forall>f' content'. upload r = Some (f', content') \<longrightarrow>
          hashBytes example_env content' = hashBytes example_env ''Z'' \<longrightarrow> content' = ''Z'')"
    by (simp add: post_request_def ack_request_def example_env_def)
  have q: "getRecipientIDParam (recipient_params ''payee'') = Inr ''payee''"
    by (simp add: param_defs example_defs)
  have code: "toBase64 ''Z'' = ''Wg==''"
    by (simp add: sextet_def base64Alphabet_def)
  note inst =
    consignment_get_returns_upload[of example_env ?req posted st1 payee_params "''upload-2''"
      "''Z''" "''payee''" "''t2''" "Some (JNum (Fin 1))" "JNum (Fin 1)"
      "[post_request blindTest_params ''upload-3'' ''X'', ack_request True]"
      "recipient_params ''payee''"]
  from inst st1 req payee_params_valid bound blob later q
  have got: "consignment_get example_env
            (serve example_env
               [post_request blindTest_params ''upload-3'' ''X'', ack_request True] st1)
            (recipient_params ''payee'') =
            Inr \<lparr> res_consignment = toBase64 ''Z'', res_txid = ''t2'',
                  res_vout = Some (JNum (Fin 1)), res_sender_amount = Some (JObj []) \<rparr>"
    and decoded: "fromBase64 (toBase64 ''Z'') = Some ''Z''"
    by (simp_all del: serve.simps toBase64.simps)
  from inst q fresh
  have missing: "consignment_get example_env posted (recipient_params ''payee'') =
            Inl (NotFoundConsignment (recipient_params ''payee''))"
    by blast
  show ?thesis
    using st1 got decoded missing unfolding code by blast
qed

text \<open>
  C6, as stated, fails: the bytes \<open>X\<close> posted once as a consignment and once as
  media are stored twice, as \<open>consignments/X\<close> and as \<open>media/X\<close> (in the
  scenario the digest of \<open>X\<close> is \<open>X\<close>).
\<close>

theorem one_file_per_payload_counterexample:
  "json_rpc example_env (post_request blindTest_params ''upload-1'' ''X'') initial =
     (Some (Inr (ResBool True)), posted) \<and>
   json_rpc example_env (media_request media_params ''upload-2'' ''X'') posted =
     (Some (Inr (ResBool True)), with_media) \<and>
   stored_at with_media ''X'' = {(''consignments'', ''X''), (''media'', ''X'')} \<and>
   card (stored_at with_media ''X'') = 2"
proof -
  have files: "stored_at with_media ''X'' = {(''consignments'', ''X''), (''media'', ''X'')}"
    by (auto simp: stored_at_def example_defs split: if_splits)
  have "card {(''consignments'', ''X''), (''media'', ''X'')} = 2"
    by simp
  with files blindTest_posted media_posted show ?thesis
    by simp
qed

text \<open>
  C6, amended. Every file of the consignment directory and every file of the media
  directory is named by the digest of its bytes: this holds of the empty directories
  and every sequence of requests preserves it, so each directory holds at most one file
  with given bytes, under their digest. Every \<open>consignment.post\<close> that returns
  true or false leaves its recipient id bound to a record whose file name is the digest
  of the uploaded bytes, and when it returns true the consignment directory holds the
  bytes under that name; likewise \<open>media.post\<close>, the attachment id and the media
  directory. Uploads of the same bytes through one method thus resolve to one file of
  that method's directory.
\<close>

theorem uploads_are_content_addressed:
  "(content_addressed e (consignmentDir st) \<and> content_addressed e (mediaDir st) \<longrightarrow>
      content_addressed e (consignmentDir (serve e reqs st)) \<and>
      content_addressed e (mediaDir (serve e reqs st)) \<and>
      stored_at (serve e reqs st) content \<subseteq>
        {(''consignments'', hashBytes e content), (''media'', hashBytes e content)}) \<and>
   content_addressed e (consignmentDir initial) \<and> content_addressed e (mediaDir initial) \<and>
   (json_rpc e req st = (Some (Inr (ResBool b)), st') \<and>
    rpc_method req = ''consignment.post'' \<and> parseParams e (rpc_params req) = Some p \<and>
    upload req = Some (f, content) \<and> getRecipientIDParam p = Inr rid \<longrightarrow>
      (\<exists>c. getConsignment st' rid = Some c \<and> filename c = hashBytes e content) \<and>
      (b \<longrightarrow> consignmentDir st' (hashBytes e content) = Some content)) \<and>
   (json_rpc e req st = (Some (Inr (ResBool b)), st') \<and>
    rpc_method req = ''media.post'' \<and> parseParams e (rpc_params req) = Some p \<and>
    upload req = Some (f, content) \<and> getAttachmentIDParam p = Inr aid \<longrightarrow>
      (\<exists>m. getMedia st' aid = Some m \<and> media_filename m = hashBytes e content) \<and>
      (b \<longrightarrow> mediaDir st' (hashBytes e content) = Some content))"
proof (intro conjI impI)
  assume a: "content_addressed e (consignmentDir st) \<and> content_addressed e (mediaDir st)"
  with serve_content_addressed[of e st reqs]
  show inv: "content_addressed e (consignmentDir (serve e reqs st))"
    "content_addressed e (mediaDir (serve e reqs st))"
    by simp_all
  then show "stored_at (serve e reqs st) content \<subseteq>
        {(''consignments'', hashBytes e content), (''media'', hashBytes e content)}"
    by (auto simp: stored_at_def content_addressed_def)
next
  show "content_addressed e (consignmentDir initial)" "content_addressed e (mediaDir initial)"
    by (simp_all add: content_addressed_def initial_def)
next
  assume a: "json_rpc e req st = (Some (Inr (ResBool b)), st') \<and>
    rpc_method req = ''consignment.post'' \<and> parseParams e (rpc_params req) = Some p \<and>
    upload req = Some (f, content) \<and> getRecipientIDParam p = Inr rid"
  with json_rpc_post_names_digest[of e req st b st' p f content rid]
  show "\<exists>c. getConsignment st' rid = Some c \<and> filename c = hashBytes e content"
    and "b \<Longrightarrow> consignmentDir st' (hashBytes e content) = Some content"
    by simp_all
next
  assume a: "json_rpc e req st = (Some (Inr (ResBool b)), st') \<and>
    rpc_method req = ''media.post'' \<and> parseParams e (rpc_params req) = Some p \<and>
    upload req = Some (f, content) \<and> getAttachmentIDParam p = Inr aid"
  with json_rpc_media_names_digest[of e req st b st' p f content aid]
  show "\<exists>m. getMedia st' aid = Some m \<and> media_filename m = hashBytes e content"
    and "b \<Longrightarrow> mediaDir st' (hashBytes e content) = Some content"
    by simp_all
qed


theorem uploads_are_content_addressed_witness:
  "content_addressed example_env (consignmentDir initial) \<and>
   content_addressed example_env (mediaDir initial) \<and>
   content_addressed example_env
     (consignmentDir
        (serve example_env
           [post_request blindTest_params ''upload-1'' ''X'',
            post_request payee_params ''upload-2'' ''X'',
            media_request media_params ''upload-3'' ''X''] initial)) \<and>
   stored_at
     (serve example_env
        [post_request blindTest_params ''upload-1'' ''X'',
         post_request payee_params ''upload-2'' ''X'',
         media_request media_params ''upload-3'' ''X''] initial) ''X'' \<subseteq>
     {(''consignments'', ''X''), (''media'', ''X'')} \<and>
   json_rpc example_env (post_request blindTest_params ''upload-1'' ''X'') initial =
     (Some (Inr (ResBool True)), posted) \<and>
   (\<exists>c. getConsignment posted ''blindTest'' = Some c \<and> filename c = ''X'') \<and>
   consignmentDir posted ''X'' = Some ''X'' \<and>
   json_rpc example_env (media_request media_params ''upload-2'' ''X'') posted =
     (Some (Inr (ResBool True)), with_media) \<and>
   (\<exists>m. getMedia with_media ''attachment'' = Some m \<and> media_filename m = ''X'') \<and>
   mediaDir with_media ''X'' = Some ''X''"
proof -
  let ?reqs = "[post_request blindTest_params ''upload-1'' ''X'',
                post_request payee_params ''upload-2'' ''X'',
                media_request media_params ''upload-3'' ''X'']"
  let ?post = "post_request blindTest_params ''upload-1'' ''X''"
  let ?media = "media_request media_params ''upload-2'' ''X''"
  have h: "hashBytes example_env ''X'' = ''X''"
    by (simp add: example_env_def)
  note general = uploads_are_content_addressed[where e = example_env and content = "''X''"]
  from general[where st = initial and reqs = ?reqs]
  have empty: "content_addressed example_env (consignmentDir initial)"
    "content_addressed example_env (mediaDir initial)"
    by blast+
  with general[where st = initial and reqs = ?reqs]
  have served: "content_addressed example_env (consignmentDir (serve example_env ?reqs initial))"
    "stored_at (serve example_env ?reqs initial) ''X'' \<subseteq>
       {(''consignments'', ''X''), (''media'', ''X'')}"
    unfolding h by blast+
  have post: "rpc_method ?post = ''consignment.post''"
    "parseParams example_env (rpc_params ?post) = Some blindTest_params"
    "upload ?post = Some (''upload-1'', ''X'')"
    "getRecipientIDParam blindTest_params = Inr ''blindTest''"
    by (simp_all add: post_request_def parseParams_def param_defs example_defs)
  from general[where req = ?post and st = initial and b = True and st' = posted
      and p = blindTest_params and f = "''upload-1''" and rid = "''blindTest''"]
    blindTest_posted post
  have first: "\<exists>c. getConsignment posted ''blindTest'' = Some c \<and> filename c = ''X''"
    "consignmentDir posted ''X'' = Some ''X''"
    unfolding h by blast+
  have media: "rpc_method ?media = ''media.post''"
    "parseParams example_env (rpc_params ?media) = Some media_params"
    "upload ?media = Some (''upload-2'', ''X'')"
    "getAttachmentIDParam media_params = Inr ''attachment''"
    by (simp_all add: media_request_def parseParams_def param_defs example_defs)
  from general[where req = ?media and st = posted and b = True and st' = with_media
      and p = media_params and f = "''upload-2''" and aid = "''attachment''"]
    media_posted media
  have second: "\<exists>m. getMedia with_media ''attachment'' = Some m \<and> media_filename m = ''X''"
    "mediaDir with_media ''X'' = Some ''X''"
    unfolding h by blast+
  show ?thesis
    using empty served blindTest_posted first media_posted second by blast
qed

section \<open>Acknowledgment\<close>

text \<open>
  C10. \<open>ack.post\<close> looks the consignment up before it reads the \<open>ack\<close>
  flag: when the recipient id of the request names no record, the failure is
  NotFoundConsignment and the state is unchanged, whatever the \<open>ack\<close> parameter
  is, also when it is missing or not a boolean.
\<close>

theorem ack_post_lookup_precedes_ack:
  "getRecipientIDParam p = Inr rid \<Longrightarrow> getConsignment st rid = None \<Longrightarrow>
   ack_post p st = (Inl (NotFoundConsignment p), st)"
  by (simp add: ack_post_def getConsignmentOrFail_def)

theorem ack_post_lookup_precedes_ack_witness:
  "getAckParam (JObj [(''recipient_id'', JStr ''blindTest'')]) =
     Inl (MissingAck (JObj [(''recipient_id'', JStr ''blindTest'')])) \<and>
   ack_post (JObj [(''recipient_id'', JStr ''blindTest'')]) initial =
     (Inl (NotFoundConsignment (JObj [(''recipient_id'', JStr ''blindTest'')])), initial)"
  using ack_post_lookup_precedes_ack
    [of "JObj [(''recipient_id'', JStr ''blindTest'')]" "''blindTest''" initial]
  by (simp add: getRecipientIDParam_def getAckParam_def isDictionary_def property_def
      truthy_def isString_def getConsignment_def initial_def)

text \<open>
  C3. For an existing consignment record and a boolean \<open>v\<close>, \<open>ack.post\<close>
  returns true and stores \<open>v\<close> when the record's ack is unset (the record then
  reads back with ack \<open>v\<close> and is otherwise the same); it returns false, with the
  state unchanged, when the stored ack equals \<open>v\<close>; and it fails with
  CannotChangeAck, with the state unchanged, when the stored ack is the other value.
\<close>

theorem ack_post_settles_once:
  assumes "getConsignmentOrFail st p = Inr c" and "getAckParam p = Inr v"
  shows "(ack c = None \<longrightarrow>
            ack_post p st = (Inr True, updateAck st (if v then 1 else 0) (recipientID c)) \<and>
            getConsignment (snd (ack_post p st)) (recipientID c) = Some (c\<lparr>ack := Some v\<rparr>) \<and>
            ack_get (snd (ack_post p st)) p = Inr (Some v)) \<and>
         (ack c = Some v \<longrightarrow> ack_post p st = (Inr False, st)) \<and>
         (ack c = Some (\<not> v) \<longrightarrow> ack_post p st = (Inl (CannotChangeAck p), st))"
proof -
  from assms(1) obtain rid where rid: "getRecipientIDParam p = Inr rid"
    and c: "getConsignment st rid = Some c"
    by (auto simp: getConsignmentOrFail_def split: sum.splits option.splits)
  have same: "recipientID c = rid"
    using c by (rule getConsignment_recipientID)
  have unset: "ack_post p st = (Inr True, updateAck st (if v then 1 else 0) rid)" if "ack c = None"
    using assms that same by (simp add: ack_post_def)
  have stored: "getConsignment (updateAck st (if v then 1 else 0) rid) rid = Some (c\<lparr>ack := Some v\<rparr>)"
    by (simp add: getConsignment_updateAck c)
  have read: "ack_get (updateAck st (if v then 1 else 0) rid) p = Inr (Some v)"
    by (simp add: ack_get_def getConsignmentOrFail_def rid stored)
  have repeat: "ack_post p st = (Inr False, st)" if "ack c = Some v"
    using assms that by (simp add: ack_post_def)
  have reverse: "ack_post p st = (Inl (CannotChangeAck p), st)" if "ack c = Some (\<not> v)"
    using assms that by (simp add: ack_post_def)
  show ?thesis
    using unset stored read repeat reverse same by simp
qed


theorem ack_post_settles_once_witness:
  "getConsignmentOrFail posted (ack_params True) = Inr blindTest_consignment \<and>
   getAckParam (ack_params True) = Inr True \<and>
   ack blindTest_consignment = None \<and>
   ack_post (ack_params True) posted = (Inr True, acked) \<and>
   ack_get acked (ack_params True) = Inr (Some True) \<and>
   getConsignmentOrFail acked (ack_params True) = Inr (blindTest_consignment\<lparr>ack := Some True\<rparr>) \<and>
   ack_post (ack_params True) acked = (Inr False, acked) \<and>
   getAckParam (ack_params False) = Inr False \<and>
   ack_post (ack_params False) acked = (Inl (CannotChangeAck (ack_params False)), acked)"
proof -
  have c0: "getConsignmentOrFail posted (ack_params True) = Inr blindTest_consignment"
    by (simp add: getConsignmentOrFail_def getConsignment_def param_defs example_defs)
  have c1: "getConsignmentOrFail acked (ack_params b) = Inr (blindTest_consignment\<lparr>ack := Some True\<rparr>)"
    for b
    by (simp add: getConsignmentOrFail_def getConsignment_def param_defs example_defs)
  have a: "getAckParam (ack_params b) = Inr b" for b
    by (simp add: param_defs example_defs)
  have u: "updateAck posted 1 ''blindTest'' = acked"
    by (simp add: updateAck_def example_defs)
  have unset: "ack blindTest_consignment = None"
    by (simp add: blindTest_consignment_def)
  have first: "ack_post (ack_params True) posted = (Inr True, acked)"
    using ack_post_settles_once[OF c0 a] u unset by (simp add: blindTest_consignment_def)
  have "ack_get (snd (ack_post (ack_params True) posted)) (ack_params True) = Inr (Some True)"
    using ack_post_settles_once[OF c0 a] unset by blast
  then have stored: "ack_get acked (ack_params True) = Inr (Some True)"
    by (simp add: first)
  have again: "ack_post (ack_params True) acked = (Inr False, acked)"
    using ack_post_settles_once[OF c1 a, of True] by simp
  have reversed: "ack_post (ack_params False) acked = (Inl (CannotChangeAck (ack_params False)), acked)"
    using ack_post_settles_once[OF c1 a, of False] by simp
  show ?thesis
    using c0 c1[of True] a unset first stored again reversed by simp
qed

text \<open>
  C7. \<open>ack.get\<close> on a record that \<open>consignment.post\<close> created, after any
  requests none of which is an \<open>ack.post\<close> for that recipient id, returns the
  unset value (\<open>None\<close>) and no failure: uploads, reads and acknowledgments of other
  recipients leave it unset. On a recipient id without a record it fails with
  NotFoundConsignment; and on a record it returns the stored acknowledgment: unset for
  NULL, otherwise the boolean of the stored integer.
\<close>

theorem ack_get_results:
  "(json_rpc e req st = (Some (Inr (ResBool True)), st1) \<and>
    rpc_method req = ''consignment.post'' \<and> parseParams e (rpc_params req) = Some p \<and>
    getRecipientIDParam p = Inr rid \<and> (\<forall>r \<in> set reqs. \<not> acknowledges e rid r) \<and>
    getRecipientIDParam q = Inr rid \<longrightarrow>
      ack_get (serve e reqs st1) q = Inr None) \<and>
   (getRecipientIDParam q = Inr rid \<and> getConsignment st rid = None \<longrightarrow>
      ack_get st q = Inl (NotFoundConsignment q)) \<and>
   (getRecipientIDParam q = Inr rid \<and>
    find (\<lambda>r. db_recipient_id r = rid) (consignments st) = Some row \<longrightarrow>
      ack_get st q = Inr (case db_ack row of None \<Rightarrow> None | Some n \<Rightarrow> Some (n \<noteq> 0)))"
proof (intro conjI impI)
  assume a: "json_rpc e req st = (Some (Inr (ResBool True)), st1) \<and>
    rpc_method req = ''consignment.post'' \<and> parseParams e (rpc_params req) = Some p \<and>
    getRecipientIDParam p = Inr rid \<and> (\<forall>r \<in> set reqs. \<not> acknowledges e rid r) \<and>
    getRecipientIDParam q = Inr rid"
  then obtain c where "getConsignment st1 rid = Some c" and "ack c = None"
    using json_rpc_post_True_record[of e req st st1 p rid] by auto
  with a have "getConsignment (serve e reqs st1) rid = Some c"
    by (simp add: serve_other_records)
  with a \<open>ack c = None\<close> show "ack_get (serve e reqs st1) q = Inr None"
    by (simp add: ack_get_def getConsignmentOrFail_def)
next
  assume "getRecipientIDParam q = Inr rid \<and> getConsignment st rid = None"
  then show "ack_get st q = Inl (NotFoundConsignment q)"
    by (simp add: ack_get_def getConsignmentOrFail_def)
next
  assume "getRecipientIDParam q = Inr rid \<and>
          find (\<lambda>r. db_recipient_id r = rid) (consignments st) = Some row"
  then show "ack_get st q = Inr (case db_ack row of None \<Rightarrow> None | Some n \<Rightarrow> Some (n \<noteq> 0))"
    by (simp add: ack_get_def getConsignmentOrFail_def getConsignment_def)
qed


theorem ack_get_results_witness:
  "json_rpc example_env (post_request blindTest_params ''upload-1'' ''X'') initial =
     (Some (Inr (ResBool True)), posted) \<and>
   acknowledges example_env ''payee'' payee_ack_request \<and>
   ack_get
     (serve example_env
        [post_request payee_params ''upload-2'' ''Z'', payee_ack_request,
         get_request ''ack.get'', post_request blindTest_params ''upload-3'' ''X''] posted)
     (recipient_params ''blindTest'') = Inr None \<and>
   getConsignment posted ''unknown'' = None \<and>
   ack_get posted (recipient_params ''unknown'') =
     Inl (NotFoundConsignment (recipient_params ''unknown'')) \<and>
   find (\<lambda>r. db_recipient_id r = ''blindTest'') (consignments acked) =
     Some (blindTest_row\<lparr>db_ack := Some 1\<rparr>) \<and>
   ack_get acked (recipient_params ''blindTest'') = Inr (Some True)"
proof -
  let ?reqs = "[post_request payee_params ''upload-2'' ''Z'', payee_ack_request,
                get_request ''ack.get'', post_request blindTest_params ''upload-3'' ''X'']"
  have rid: "getRecipientIDParam (recipient_params ''blindTest'') = Inr ''blindTest''"
    "getRecipientIDParam (recipient_params ''unknown'') = Inr ''unknown''"
    "getRecipientIDParam blindTest_params = Inr ''blindTest''"
    by (simp_all add: param_defs example_defs)
  have p: "parseParams example_env (rpc_params (post_request blindTest_params ''upload-1'' ''X'')) =
           Some blindTest_params"
    by (simp add: post_request_def parseParams_def example_defs)
  have m: "rpc_method (post_request blindTest_params ''upload-1'' ''X'') = ''consignment.post''"
    by (simp add: post_request_def)
  have payee: "acknowledges example_env ''payee'' payee_ack_request"
    by (simp add: acknowledges_def parseParams_def param_defs example_defs)
  have others: "\<forall>r \<in> set ?reqs. \<not> acknowledges example_env ''blindTest'' r"
    by (simp add: acknowledges_def get_request_def post_request_def parseParams_def
        param_defs example_defs)
  have unknown: "getConsignment posted ''unknown'' = None"
    by (simp add: getConsignment_def example_defs)
  have row: "find (\<lambda>r. db_recipient_id r = ''blindTest'') (consignments acked) =
             Some (blindTest_row\<lparr>db_ack := Some 1\<rparr>)"
    by (simp add: example_defs)
  have unset: "ack_get (serve example_env ?reqs posted) (recipient_params ''blindTest'') = Inr None"
    using ack_get_results[of example_env "post_request blindTest_params ''upload-1'' ''X''"
        initial posted blindTest_params "''blindTest''" ?reqs "recipient_params ''blindTest''"]
      blindTest_posted p m rid others
    by blast
  have missing: "ack_get posted (recipient_params ''unknown'') =
     Inl (NotFoundConsignment (recipient_params ''unknown''))"
    using ack_get_results[of _ _ posted _ _ "''unknown''" _ "recipient_params ''unknown''"]
      rid unknown
    by blast
  have stored: "ack_get acked (recipient_params ''blindTest'') = Inr (Some True)"
    using ack_get_results[of _ _ acked _ _ "''blindTest''" _ "recipient_params ''blindTest''"
        "blindTest_row\<lparr>db_ack := Some 1\<rparr>"]
      rid row
    by (simp add: blindTest_row_def)
  show ?thesis
    using blindTest_posted payee unset unknown missing row stored by (simp del: serve.simps)
qed

text \<open>
  C4. Under every sequence of requests, a record whose ack is terminal reads back
  unchanged; a record that a request creates is created by \<open>consignment.post\<close>
  with ack unset; and a request leaves an existing record as it is, unless it is an
  \<open>ack.post\<close> on an unset record, which then holds a terminal ack and is
  otherwise the same. So the ack of a record goes from unset to a terminal value at
  most once, through \<open>ack.post\<close> only.
\<close>

theorem ack_state_settles_once:
  "(getConsignment st rid = Some c \<and> ack c \<noteq> None \<longrightarrow>
      getConsignment (serve e reqs st) rid = Some c) \<and>
   (json_rpc e req st = (r, st') \<and> getConsignment st rid = None \<and>
    getConsignment st' rid = Some c' \<longrightarrow>
      rpc_method req = ''consignment.post'' \<and> ack c' = None) \<and>
   (json_rpc e req st = (r, st') \<and> getConsignment st rid = Some c \<longrightarrow>
      getConsignment st' rid = Some c \<or>
      rpc_method req = ''ack.post'' \<and> ack c = None \<and>
      (\<exists>a. getConsignment st' rid = Some (c\<lparr>ack := Some a\<rparr>)))"
proof (intro conjI impI)
  assume "getConsignment st rid = Some c \<and> ack c \<noteq> None"
  then show "getConsignment (serve e reqs st) rid = Some c"
    by (simp add: serve_terminal)
next
  assume a: "json_rpc e req st = (r, st') \<and> getConsignment st rid = None \<and>
             getConsignment st' rid = Some c'"
  with json_rpc_record_created[of e req st r st' rid c']
  show "rpc_method req = ''consignment.post''" and "ack c' = None"
    by simp_all
next
  assume "json_rpc e req st = (r, st') \<and> getConsignment st rid = Some c"
  with json_rpc_record_step[of e req st r st' rid c]
  show "getConsignment st' rid = Some c \<or>
        rpc_method req = ''ack.post'' \<and> ack c = None \<and>
        (\<exists>a. getConsignment st' rid = Some (c\<lparr>ack := Some a\<rparr>))"
    by blast
qed

theorem ack_state_settles_once_witness:
  "getConsignment acked ''blindTest'' = Some (blindTest_consignment\<lparr>ack := Some True\<rparr>) \<and>
   getConsignment
     (serve example_env
        [ack_request False, post_request blindTest_params ''upload-2'' ''Y'', ack_request True]
        acked) ''blindTest'' =
     Some (blindTest_consignment\<lparr>ack := Some True\<rparr>) \<and>
   json_rpc example_env (post_request blindTest_params ''upload-1'' ''X'') initial =
     (Some (Inr (ResBool True)), posted) \<and>
   getConsignment initial ''blindTest'' = None \<and>
   getConsignment posted ''blindTest'' = Some blindTest_consignment \<and>
   ack blindTest_consignment = None \<and>
   json_rpc example_env (ack_request True) posted = (Some (Inr (ResBool True)), acked) \<and>
   rpc_method (ack_request True) = ''ack.post''"
proof -
  note inst = ack_state_settles_once[where e = example_env and rid = "''blindTest''"]
  have kept: "getConsignment
     (serve example_env
        [ack_request False, post_request blindTest_params ''upload-2'' ''Y'', ack_request True]
        acked) ''blindTest'' =
     Some (blindTest_consignment\<lparr>ack := Some True\<rparr>)"
    using inst[where st = acked and c = "blindTest_consignment\<lparr>ack := Some True\<rparr>"]
      blindTest_records(3)
    by (simp del: serve.simps)
  have created: "ack blindTest_consignment = None"
    using inst[where req = "post_request blindTest_params ''upload-1'' ''X''" and st = initial
        and r = "Some (Inr (ResBool True))" and st' = posted and c' = blindTest_consignment]
      blindTest_posted blindTest_records(1,2)
    by blast
  have written: "rpc_method (ack_request True) = ''ack.post''"
    using inst[where req = "ack_request True" and st = posted
        and r = "Some (Inr (ResBool True))" and st' = acked and c = blindTest_consignment]
      blindTest_acked blindTest_records(2,3)
    by (auto simp: blindTest_consignment_def)
  show ?thesis
    using kept created written blindTest_posted blindTest_acked blindTest_records
    by (simp del: serve.simps)
qed


section \<open>Further properties\<close>

text \<open>
  At most one row per recipient id and per attachment id: the keys of both tables are
  distinct in the initial state and stay distinct under every sequence of requests.
\<close>

theorem keys_stay_unique:
  "distinct (map db_recipient_id (consignments initial)) \<and>
   distinct (map attachment_id (media initial)) \<and>
   (distinct (map db_recipient_id (consignments st)) \<and> distinct (map attachment_id (media st)) \<longrightarrow>
      distinct (map db_recipient_id (consignments (serve e reqs st))) \<and>
      distinct (map attachment_id (media (serve e reqs st))))"
proof (intro conjI impI)
  show "distinct (map db_recipient_id (consignments initial))"
    "distinct (map attachment_id (media initial))"
    by (simp_all add: initial_def)
next
  assume "distinct (map db_recipient_id (consignments st)) \<and> distinct (map attachment_id (media st))"
  then have "distinct (map db_recipient_id (consignments (serve e reqs st))) \<and>
      distinct (map attachment_id (media (serve e reqs st)))"
  proof (induction reqs arbitrary: st)
    case Nil
    then show ?case by simp
  next
    case (Cons req reqs)
    obtain r st' where step: "json_rpc e req st = (r, st')"
      by (cases "json_rpc e req st")
    from json_rpc_unique_keys[OF step] Cons.prems
    have "distinct (map db_recipient_id (consignments st')) \<and>
          distinct (map attachment_id (media st'))"
      by simp
    from Cons.IH[OF this] step show ?case by simp
  qed
  then show "distinct (map db_recipient_id (consignments (serve e reqs st)))"
    and "distinct (map attachment_id (media (serve e reqs st)))"
    by simp_all
qed


theorem keys_stay_unique_witness:
  "distinct (map db_recipient_id (consignments initial)) \<and>
   distinct (map attachment_id (media initial)) \<and>
   distinct
     (map db_recipient_id
        (consignments
           (serve example_env
              [post_request blindTest_params ''upload-1'' ''X'',
               post_request blindTest_params ''upload-2'' ''Y'',
               media_request media_params ''upload-3'' ''X''] initial))) \<and>
   distinct
     (map attachment_id
        (media
           (serve example_env
              [post_request blindTest_params ''upload-1'' ''X'',
               post_request blindTest_params ''upload-2'' ''Y'',
               media_request media_params ''upload-3'' ''X''] initial)))"
  using keys_stay_unique[of initial example_env
      "[post_request blindTest_params ''upload-1'' ''X'',
        post_request blindTest_params ''upload-2'' ''Y'',
        media_request media_params ''upload-3'' ''X'']"]
  by blast

text \<open>
  Whatever \<open>consignment.post\<close> and \<open>media.post\<close> return or throw for an
  uploaded file, the staged file is no longer in the staging directory when the handler
  ends: moved on a fresh insert, unlinked on a duplicate, removed by the \<open>catch\<close>
  block on every failure. And for every request that is answered, with any method, the
  staging directory after the request is the one before it without the request's staged
  file.
\<close>

theorem answered_request_removes_staged_file:
  "tempDir (snd (consignment_post e p (Some f) st)) f = None \<and>
   tempDir (snd (media_post e p (Some f) st)) f = None \<and>
   (json_rpc e req st = (Some response, st') \<and> upload req = Some (f, content) \<longrightarrow>
      tempDir st' = (tempDir st)(f := None))"
proof (intro conjI impI)
  show "tempDir (snd (consignment_post e p (Some f) st)) f = None"
    using consignment_post_tempDir[of e p "Some f" st] by (cases "consignment_post e p (Some f) st") simp
  show "tempDir (snd (media_post e p (Some f) st)) f = None"
    using media_post_tempDir[of e p "Some f" st] by (cases "media_post e p (Some f) st") simp
next
  assume "json_rpc e req st = (Some response, st') \<and> upload req = Some (f, content)"
  with json_rpc_tempDir[of e req st response st'] show "tempDir st' = (tempDir st)(f := None)"
    by simp
qed

theorem answered_request_removes_staged_file_witness:
  "json_rpc example_env (post_request (JObj []) ''upload-1'' ''X'') initial =
     (Some (Inl (MissingRecipientID (JObj []))), initial) \<and>
   upload (post_request (JObj []) ''upload-1'' ''X'') = Some (''upload-1'', ''X'') \<and>
   tempDir initial = (tempDir initial)(''upload-1'' := None) \<and>
   tempDir initial ''upload-1'' = None"
  using answered_request_removes_staged_file[of example_env "JObj []" "''upload-1''" initial
      "post_request (JObj []) ''upload-1'' ''X''" "Inl (MissingRecipientID (JObj []))" initial "''X''"]
    invalid_post_answered
  by (simp add: post_request_def initial_def)

text \<open>
  The scenario, request by request: the post returns true; the consignment reads back as
  the base64 text of \<open>X\<close> with its txid; the first acknowledgment returns true and
  reads back as true; its repetition returns false; the opposite verdict is refused.
\<close>

theorem blindTest_scenario:
  "json_rpc example_env (post_request blindTest_params ''upload-1'' ''X'') initial =
     (Some (Inr (ResBool True)), posted) \<and>
   json_rpc example_env (get_request ''consignment.get'') posted =
     (Some (Inr (ResConsignment
        \<lparr> res_consignment = ''WA=='', res_txid = ''t1'', res_vout = None,
          res_sender_amount = None \<rparr>)), posted) \<and>
   fromBase64 ''WA=='' = Some ''X'' \<and>
   json_rpc example_env (ack_request True) posted = (Some (Inr (ResBool True)), acked) \<and>
   json_rpc example_env (get_request ''ack.get'') acked =
     (Some (Inr (ResAck (Some True))), acked) \<and>
   json_rpc example_env (ack_request True) acked = (Some (Inr (ResBool False)), acked) \<and>
   json_rpc example_env (ack_request False) acked =
     (Some (Inl (CannotChangeAck (ack_params False))), acked)"
proof -
  have code: "toBase64 ''X'' = ''WA==''"
    by (simp add: sextet_def base64Alphabet_def)
  have "fromBase64 (toBase64 ''X'') = Some ''X''"
    by (rule fromBase64_toBase64)
  then have "fromBase64 ''WA=='' = Some ''X''"
    unfolding code .
  with blindTest_posted blindTest_got blindTest_acked blindTest_ack_read
    blindTest_acked_again blindTest_nacked_refused
  show ?thesis by simp
qed

end
